theory Spec2Isabelle
  imports Main "HOL-Library.AList"
begin

section \<open>JavaScript strings\<close>

text \<open>
  The string methods the tool calls, on \<open>string\<close> (a list of characters).
  \<open>startsWith\<close> and \<open>endsWith\<close> compare a prefix and a suffix.
\<close>

definition startsWith :: "string \<Rightarrow> string \<Rightarrow> bool" where
  "startsWith s p = (take (length p) s = p)"

definition endsWith :: "string \<Rightarrow> string \<Rightarrow> bool" where
  "endsWith s p = (length p \<le> length s \<and> drop (length s - length p) s = p)"

text \<open>
  A value is truthy when it is neither \<open>undefined\<close> nor the empty string:
  the test behind \<open>!!x\<close>, \<open>if (x)\<close> and \<open>x || y\<close> on an optional string.
\<close>

definition truthy :: "string option \<Rightarrow> bool" where
  "truthy x = (case x of None \<Rightarrow> False | Some s \<Rightarrow> s \<noteq> [])"

text \<open>
  \<open>splitAtFirst pat s\<close> finds the first occurrence of \<open>pat\<close> in \<open>s\<close> and
  returns what stands before and after it.
\<close>

fun splitAtFirst :: "string \<Rightarrow> string \<Rightarrow> (string \<times> string) option" where
  "splitAtFirst pat [] = (if pat = [] then Some ([], []) else None)"
| "splitAtFirst pat (c # cs) =
     (if startsWith (c # cs) pat then Some ([], drop (length pat) (c # cs))
      else (case splitAtFirst pat cs of
              None \<Rightarrow> None
            | Some (pre, post) \<Rightarrow> Some (c # pre, post)))"

text \<open>
  The replacement text of \<open>String.prototype.replace\<close> for a string pattern:
  \<open>$$\<close> is a dollar sign, \<open>$&\<close> the matched text, \<open>$`\<close> the text before the
  match and \<open>$'\<close> the text after it. A string pattern has no capture groups, so
  every other \<open>$\<close> stands for itself.
\<close>

fun getSubstitution :: "string \<Rightarrow> string \<Rightarrow> string \<Rightarrow> string \<Rightarrow> string" where
  "getSubstitution matched pre post [] = []"
| "getSubstitution matched pre post [c] = [c]"
| "getSubstitution matched pre post (c # d # cs) =
     (if c = CHR ''$'' \<and> d = CHR ''$'' then CHR ''$'' # getSubstitution matched pre post cs
      else if c = CHR ''$'' \<and> d = CHR ''&'' then matched @ getSubstitution matched pre post cs
      else if c = CHR ''$'' \<and> d = CHR 0x60 then pre @ getSubstitution matched pre post cs
      else if c = CHR ''$'' \<and> d = CHR 0x27 then post @ getSubstitution matched pre post cs
      else c # getSubstitution matched pre post (d # cs))"

text \<open>\<open>s.replace(pat, repl)\<close> with a string pattern: the first occurrence only.\<close>

definition replaceString :: "string \<Rightarrow> string \<Rightarrow> string \<Rightarrow> string" where
  "replaceString s pat repl =
     (case splitAtFirst pat s of
        None \<Rightarrow> s
      | Some (pre, post) \<Rightarrow> pre @ getSubstitution pat pre post repl @ post)"

text \<open>\<open>s.replace(/\.tsx?$/, "")\<close>: a final \<open>.ts\<close> or \<open>.tsx\<close> is dropped.\<close>

definition stripTsExtension :: "string \<Rightarrow> string" where
  "stripTsExtension s =
     (if endsWith s ''.tsx'' then take (length s - 4) s
      else if endsWith s ''.ts'' then take (length s - 3) s
      else s)"

text \<open>\<open>s.replace(/\\/g, "/")\<close>: every backslash becomes a forward slash.\<close>

definition slashes :: "string \<Rightarrow> string" where
  "slashes s = map (\<lambda>c. if c = CHR 0x5C then CHR ''/'' else c) s"

section \<open>The host: Node's path and fs modules\<close>

text \<open>
  The tool calls Node's \<open>path\<close> and \<open>fs\<close> modules. They are not part of the
  repository, so the model takes them as parameters.
\<close>

record host =
  pathResolve :: "string list \<Rightarrow> string"
  pathDirname :: "string \<Rightarrow> string"
  pathJoin :: "string \<Rightarrow> string \<Rightarrow> string"
  pathRelative :: "string \<Rightarrow> string \<Rightarrow> string"
  existsSync :: "string \<Rightarrow> bool"

datatype error = TypeError

section \<open>resolveAlias and getRelativePath\<close>

text \<open>
  The \<open>paths\<close> object of tsconfig.json, as the list of its keys in the order
  in which \<open>Object.keys(paths)\<close> gives them (keys that are array indices
  first, then the others as the file has them), each with the value that
  \<open>paths[alias]\<close> gives for it. The tool reads of a value whether it is
  truthy and what its element \<open>[0]\<close> is: a falsy value is \<open>None\<close>, a value
  whose element \<open>[0]\<close> is a string is \<open>Some\<close> of a list with that string in
  front, and \<open>Some []\<close> is a truthy value with no string at \<open>[0]\<close>, on
  which \<open>basePaths[0].replace\<close> raises a TypeError.
\<close>

type_synonym alias_table = "(string \<times> string list option) list"

definition aliasPrefix :: "string \<Rightarrow> string" where
  "aliasPrefix a = replaceString a ''/*'' []"

definition absoluteBase :: "('a host_scheme) \<Rightarrow> string \<Rightarrow> string" where
  "absoluteBase H b = pathResolve H [replaceString b ''/*'' []]"

definition aliasSpecifier :: "('a host_scheme) \<Rightarrow> string \<Rightarrow> string \<Rightarrow> string \<Rightarrow> string" where
  "aliasSpecifier H a b resolvedPath =
     slashes (stripTsExtension (replaceString resolvedPath (absoluteBase H b) (aliasPrefix a)))"

text \<open>
  \<open>resolveAlias\<close> walks the keys in order and returns at the first entry
  whose base path matches.
\<close>

fun resolveAlias :: "('a host_scheme) \<Rightarrow> alias_table \<Rightarrow> string \<Rightarrow> error + string option" where
  "resolveAlias H [] resolvedPath = Inr None"
| "resolveAlias H ((a, None) # rest) resolvedPath = resolveAlias H rest resolvedPath"
| "resolveAlias H ((a, Some []) # rest) resolvedPath = Inl TypeError"
| "resolveAlias H ((a, Some (b # bs)) # rest) resolvedPath =
     (if startsWith resolvedPath (absoluteBase H b)
      then Inr (Some (aliasSpecifier H a b resolvedPath))
      else resolveAlias H rest resolvedPath)"

definition getRelativePath :: "('a host_scheme) \<Rightarrow> string \<Rightarrow> string \<Rightarrow> string" where
  "getRelativePath H from to =
     (let relativePath = stripTsExtension (pathRelative H (pathDirname H from) to);
          relativePath = (if \<not> startsWith relativePath ''.'' then ''./'' @ relativePath else relativePath)
      in slashes relativePath)"

section \<open>Source files\<close>

text \<open>
  What ts-morph shows of a parsed module. A named import is \<open>name\<close> or
  \<open>name as alias\<close>; an import declaration has a module specifier, perhaps a
  default import, and its named imports.
\<close>

record named_import =
  importName :: string
  importAlias :: "string option"

record import_decl =
  importSpecifier :: string
  defaultImport :: "string option"
  namedImports :: "named_import list"

text \<open>
  An export declaration is \<open>export * from '...'\<close> or \<open>export { a, b as c }\<close>
  with or without \<open>from '...'\<close>. \<open>isNamespaceExport\<close> holds when it has no
  named exports.
\<close>

record export_specifier =
  specName :: string
  specAlias :: "string option"

record export_decl =
  exportSpecifier :: "string option"
  isNamespaceExport :: bool
  namedExports :: "export_specifier list"

text \<open>
  The top-level statements other than import declarations: export declarations
  and everything else (a statement such as \<open>export const x = 1\<close> is a variable
  statement, not an export declaration).
\<close>

datatype top_statement = ExportDeclaration export_decl | OtherStatement

text \<open>
  A source file: its path, its import declarations in source order, its other
  top-level statements in source order, and the answers of the type checker:
  for each exported name the files of its declarations
  (\<open>getExportedDeclarations\<close>), and the files of the declarations of the default
  export symbol when there is one (\<open>getDefaultExportSymbol()?.getDeclarations()\<close>).
  How import declarations interleave with the other statements is not recorded:
  no function of the tool depends on it.
\<close>

record source_file =
  filePath :: string
  importDeclarations :: "import_decl list"
  otherStatements :: "top_statement list"
  exportedDeclarations :: "(string \<times> string list) list"
  defaultExportDeclarations :: "string list option"

definition getStatements :: "source_file \<Rightarrow> (import_decl + top_statement) list" where
  "getStatements sf = map Inl (importDeclarations sf) @ map Inr (otherStatements sf)"

fun exportDeclarationsOf :: "top_statement list \<Rightarrow> export_decl list" where
  "exportDeclarationsOf [] = []"
| "exportDeclarationsOf (ExportDeclaration d # ss) = d # exportDeclarationsOf ss"
| "exportDeclarationsOf (OtherStatement # ss) = exportDeclarationsOf ss"

definition getExportDeclarations :: "source_file \<Rightarrow> export_decl list" where
  "getExportDeclarations sf = exportDeclarationsOf (otherStatements sf)"

section \<open>Purging barrel files\<close>

text \<open>
  The test of one statement in \<open>isPureBarrelFile\<close>: its kind is
  ExportDeclaration and \<open>!!stmt.getModuleSpecifierValue()\<close> holds.
\<close>

fun isReExportStatement :: "import_decl + top_statement \<Rightarrow> bool" where
  "isReExportStatement (Inr (ExportDeclaration d)) = truthy (exportSpecifier d)"
| "isReExportStatement (Inr OtherStatement) = False"
| "isReExportStatement (Inl i) = False"

definition isPureBarrelFile :: "source_file \<Rightarrow> bool" where
  "isPureBarrelFile sf =
     (let statements = getStatements sf
      in if length statements = 0 then False else list_all isReExportStatement statements)"

text \<open>
  \<open>purgeBarrels\<close> sorts the source files into pure and impure barrel files and,
  unless it is a dry run, deletes the pure ones. The result holds both lists and
  the paths it unlinked.
\<close>

record purge_result =
  pureBarrelFiles :: "source_file list"
  impureBarrelFiles :: "source_file list"
  unlinked :: "string list"

definition purgeStep :: "source_file \<Rightarrow> purge_result \<Rightarrow> purge_result" where
  "purgeStep sourceFile r =
     (if length (getExportDeclarations sourceFile) > 0 then
        (if isPureBarrelFile sourceFile
         then r\<lparr>pureBarrelFiles := pureBarrelFiles r @ [sourceFile]\<rparr>
         else r\<lparr>impureBarrelFiles := impureBarrelFiles r @ [sourceFile]\<rparr>)
      else r)"

definition purgeBarrels :: "source_file list \<Rightarrow> bool \<Rightarrow> purge_result" where
  "purgeBarrels sourceFiles dryRun =
     (let r = fold purgeStep sourceFiles
                \<lparr>pureBarrelFiles = [], impureBarrelFiles = [], unlinked = []\<rparr>
      in if dryRun then r else r\<lparr>unlinked := map filePath (pureBarrelFiles r)\<rparr>)"

section \<open>The alias resolver, as the amended claim words it\<close>


section \<open>The project and the re-export map\<close>

text \<open>
  The ts-morph project: the host, the source files it holds (or can load from
  disk), and its module resolution, which maps the path of a file and a module
  specifier written in it to the path of the module the specifier names.
\<close>

record project = host +
  sourceFiles :: "source_file list"
  resolveModule :: "string \<Rightarrow> string \<Rightarrow> string option"

definition getSourceFile :: "project \<Rightarrow> string \<Rightarrow> source_file option" where
  "getSourceFile P p = find (\<lambda>sf. filePath sf = p) (sourceFiles P)"

text \<open>\<open>decl.getModuleSpecifierSourceFile()\<close> for a declaration of \<open>sourceFile\<close>.\<close>

definition getModuleSpecifierSourceFile :: "project \<Rightarrow> source_file \<Rightarrow> string \<Rightarrow> source_file option" where
  "getModuleSpecifierSourceFile P sourceFile specifier =
     (case resolveModule P (filePath sourceFile) specifier of
        None \<Rightarrow> None
      | Some p \<Rightarrow> getSourceFile P p)"

text \<open>\<open>x || y\<close> on an optional string.\<close>

definition orElse :: "string option \<Rightarrow> string \<Rightarrow> string" where
  "orElse x y = (case x of None \<Rightarrow> y | Some s \<Rightarrow> if s = [] then y else s)"

text \<open>
  The fallback of \<open>getReExportMapRecursive\<close> when ts-morph does not resolve a
  re-export: probe \<open>.ts\<close>, \<open>.tsx\<close>, \<open>index.ts\<close> and \<open>index.tsx\<close>, in
  that order.
\<close>

definition probeFullPath :: "project \<Rightarrow> source_file \<Rightarrow> string \<Rightarrow> string option" where
  "probeFullPath P sourceFile specifier =
     (let resolvedPath = pathResolve P [pathDirname P (filePath sourceFile), specifier]
      in if existsSync P (resolvedPath @ ''.ts'') then Some (resolvedPath @ ''.ts'')
         else if existsSync P (resolvedPath @ ''.tsx'') then Some (resolvedPath @ ''.tsx'')
         else if existsSync P (pathJoin P resolvedPath ''index.ts'')
           then Some (pathJoin P resolvedPath ''index.ts'')
         else if existsSync P (pathJoin P resolvedPath ''index.tsx'')
           then Some (pathJoin P resolvedPath ''index.tsx'')
         else None)"

definition targetSource :: "project \<Rightarrow> source_file \<Rightarrow> export_decl \<Rightarrow> source_file option" where
  "targetSource P sourceFile exportDecl =
     (let specifier = exportSpecifier exportDecl;
          target = (case specifier of
                      None \<Rightarrow> None
                    | Some s \<Rightarrow> getModuleSpecifierSourceFile P sourceFile s)
      in case target of
           Some t \<Rightarrow> Some t
         | None \<Rightarrow>
             (case specifier of
                None \<Rightarrow> None
              | Some s \<Rightarrow>
                  if s = [] then None
                  else (case probeFullPath P sourceFile s of
                          None \<Rightarrow> None
                        | Some fullPath \<Rightarrow> getSourceFile P fullPath)))"

text \<open>An entry of the re-export map: \<open>{ localName, resolvedPath }\<close>.\<close>

record reexport =
  localName :: string
  resolvedPath :: string

type_synonym reexport_map = "string \<rightharpoonup> reexport"

definition exportedNameOf :: "export_specifier \<Rightarrow> string" where
  "exportedNameOf spec = orElse (specAlias spec) (specName spec)"

definition setNamedExport :: "string \<Rightarrow> export_specifier \<Rightarrow> reexport_map \<Rightarrow> reexport_map" where
  "setNamedExport path spec m =
     m(exportedNameOf spec \<mapsto> \<lparr>localName = specName spec, resolvedPath = path\<rparr>)"

text \<open>
  \<open>getReExportMapRecursive\<close> with the set \<open>seen\<close> passed through the calls
  and returned, as the JavaScript shares one \<open>Set\<close> among them. The first
  argument bounds the depth of the recursion; \<open>None\<close> means the bound was
  reached. \<open>forEachExportDecl\<close> is the body of the \<open>forEach\<close> over the export
  declarations.
\<close>

function getReExportMapRecursive ::
    "nat \<Rightarrow> project \<Rightarrow> source_file \<Rightarrow> string set \<Rightarrow> (reexport_map \<times> string set) option"
  and forEachExportDecl ::
    "nat \<Rightarrow> project \<Rightarrow> source_file \<Rightarrow> export_decl list \<Rightarrow> reexport_map \<Rightarrow> string set
      \<Rightarrow> (reexport_map \<times> string set) option"
where
  "getReExportMapRecursive 0 P sourceFile seen = None"
| "getReExportMapRecursive (Suc n) P sourceFile seen =
     (if filePath sourceFile \<in> seen then Some (Map.empty, seen)
      else forEachExportDecl n P sourceFile (getExportDeclarations sourceFile) Map.empty
             (insert (filePath sourceFile) seen))"
| "forEachExportDecl n P sourceFile [] reExportMap seen = Some (reExportMap, seen)"
| "forEachExportDecl n P sourceFile (exportDecl # rest) reExportMap seen =
     (case targetSource P sourceFile exportDecl of
        None \<Rightarrow> forEachExportDecl n P sourceFile rest reExportMap seen
      | Some target \<Rightarrow>
          if isNamespaceExport exportDecl then
            (case getReExportMapRecursive n P target seen of
               None \<Rightarrow> None
             | Some (nestedMap, seen') \<Rightarrow>
                 forEachExportDecl n P sourceFile rest (reExportMap ++ nestedMap) seen')
          else forEachExportDecl n P sourceFile rest
                 (fold (setNamedExport (filePath target)) (namedExports exportDecl) reExportMap)
                 seen)"
  by pat_completeness auto
termination
  by (relation "inv_image (less_than <*lex*> less_than)
        (\<lambda>x. case x of
           Inl (n, P, sf, seen) \<Rightarrow> (n, 0)
         | Inr (n, P, sf, ds, m, seen) \<Rightarrow> (n, Suc (length ds)))") auto

text \<open>
  The top-level call \<open>getReExportMapRecursive(project, declarations)\<close> starts
  with an empty \<open>seen\<close>. One more level than the project has files is deep
  enough (theorem \<open>getReExportMapRecursive_terminates\<close>).
\<close>

definition depthBound :: "project \<Rightarrow> nat" where
  "depthBound P = Suc (Suc (length (sourceFiles P)))"

definition reExportMapOf :: "project \<Rightarrow> source_file \<Rightarrow> reexport_map" where
  "reExportMapOf P sourceFile =
     (case getReExportMapRecursive (depthBound P) P sourceFile {} of
        None \<Rightarrow> Map.empty
      | Some (m, seen) \<Rightarrow> m)"

section \<open>The re-export graph\<close>

text \<open>
  The notions the claims about the re-export map are stated with. The
  namespace targets of a module are the modules its \<open>export * from\<close>
  declarations resolve to; its named entries are the entries its named
  re-export clauses write: the exported name, and the local name with the path
  of the clause's own target.
\<close>

definition namespaceTargetsOf :: "project \<Rightarrow> source_file \<Rightarrow> export_decl list \<Rightarrow> source_file list" where
  "namespaceTargetsOf P sf ds =
     List.map_filter (\<lambda>d. if isNamespaceExport d then targetSource P sf d else None) ds"

definition namespaceTargets :: "project \<Rightarrow> source_file \<Rightarrow> source_file list" where
  "namespaceTargets P sf = namespaceTargetsOf P sf (getExportDeclarations sf)"

definition clauseEntries :: "project \<Rightarrow> source_file \<Rightarrow> export_decl \<Rightarrow> (string \<times> reexport) list" where
  "clauseEntries P sf d =
     (case targetSource P sf d of
        None \<Rightarrow> []
      | Some t \<Rightarrow>
          if isNamespaceExport d then []
          else map (\<lambda>spec. (exportedNameOf spec,
                            \<lparr>localName = specName spec, resolvedPath = filePath t\<rparr>))
                 (namedExports d))"

definition namedEntriesOf :: "project \<Rightarrow> source_file \<Rightarrow> export_decl list \<Rightarrow> (string \<times> reexport) list" where
  "namedEntriesOf P sf ds = concat (map (clauseEntries P sf) ds)"

definition namedEntries :: "project \<Rightarrow> source_file \<Rightarrow> (string \<times> reexport) list" where
  "namedEntries P sf = namedEntriesOf P sf (getExportDeclarations sf)"

text \<open>
  \<open>reachesAvoiding P S root x\<close>: module \<open>x\<close> is reached from \<open>root\<close> along
  namespace re-exports through modules whose paths are not in \<open>S\<close>. With the
  empty set this is plain reachability: every module that is reachable at all
  is reachable along a path that visits no module twice.
\<close>

inductive reachesAvoiding :: "project \<Rightarrow> string set \<Rightarrow> source_file \<Rightarrow> source_file \<Rightarrow> bool"
  for P :: project and S :: "string set" and root :: source_file
where
  start: "filePath root \<notin> S \<Longrightarrow> reachesAvoiding P S root root"
| step: "reachesAvoiding P S root m \<Longrightarrow> t \<in> set (namespaceTargets P m) \<Longrightarrow> filePath t \<notin> S
          \<Longrightarrow> reachesAvoiding P S root t"

definition reachable :: "project \<Rightarrow> source_file \<Rightarrow> source_file set" where
  "reachable P root = {x. reachesAvoiding P {} root x}"

section \<open>Rewriting the imports of a file\<close>

text \<open>
  \<open>resolveAlias(paths, resolvedFile) || getRelativePath(sourceFile.getFilePath(), resolvedFile)\<close>
\<close>

definition resolveSpecifier :: "project \<Rightarrow> alias_table \<Rightarrow> source_file \<Rightarrow> string \<Rightarrow> error + string" where
  "resolveSpecifier P paths sourceFile resolvedFile =
     (case resolveAlias P paths resolvedFile of
        Inl e \<Rightarrow> Inl e
      | Inr r \<Rightarrow> Inr (orElse r (getRelativePath P (filePath sourceFile) resolvedFile)))"

text \<open>\<open>decls?.[0]\<close>: the first element of an optional array.\<close>

fun firstOf :: "'a list option \<Rightarrow> 'a option" where
  "firstOf None = None"
| "firstOf (Some []) = None"
| "firstOf (Some (x # xs)) = Some x"

text \<open>
  An entry of \<open>rewrittenBySpecifier\<close>: the pairs \<open>[originalExportName, usedName]\<close>
  pushed for the specifier, and the default import. The map itself is the list
  of its entries in insertion order.
\<close>

type_synonym rewritten = "(string \<times> string) list \<times> string option"

record pid_state =
  rewrittenBySpecifier :: "(string \<times> rewritten) list"
  keptNamed :: "(string \<times> string option) list"
  changed :: bool

definition pushNamed :: "string \<Rightarrow> string \<times> string \<Rightarrow> (string \<times> rewritten) list \<Rightarrow> (string \<times> rewritten) list" where
  "pushNamed resolved pair rbs =
     (case map_of rbs resolved of
        None \<Rightarrow> rbs @ [(resolved, ([pair], None))]
      | Some (named, d) \<Rightarrow> AList.update resolved (named @ [pair], d) rbs)"

text \<open>The default import of \<open>processImportDeclaration\<close>.\<close>

definition processDefault ::
    "project \<Rightarrow> alias_table \<Rightarrow> source_file \<Rightarrow> source_file \<Rightarrow> string \<Rightarrow> import_decl \<Rightarrow> error + pid_state" where
  "processDefault P paths sourceFile declarations moduleSpecifier importDecl =
     (let st0 = \<lparr>rewrittenBySpecifier = [], keptNamed = [], changed = False\<rparr>
      in if truthy (defaultImport importDecl) then
           (case firstOf (defaultExportDeclarations declarations) of
              None \<Rightarrow> Inr st0
            | Some resolvedFile \<Rightarrow>
                (case resolveSpecifier P paths sourceFile resolvedFile of
                   Inl e \<Rightarrow> Inl e
                 | Inr resolved \<Rightarrow>
                     if resolved \<noteq> moduleSpecifier
                     then Inr \<lparr>rewrittenBySpecifier = [(resolved, ([], defaultImport importDecl))],
                               keptNamed = [], changed = True\<rparr>
                     else Inr st0))
         else Inr st0)"

text \<open>The body of the \<open>forEach\<close> over the named imports.\<close>

definition processNamed ::
    "project \<Rightarrow> alias_table \<Rightarrow> source_file \<Rightarrow> source_file \<Rightarrow> string \<Rightarrow> reexport_map
      \<Rightarrow> named_import \<Rightarrow> pid_state \<Rightarrow> error + pid_state" where
  "processNamed P paths sourceFile declarations moduleSpecifier reExportMap namedImport st =
     (let name = importName namedImport;
          usedName = orElse (importAlias namedImport) name
      in case firstOf (map_of (exportedDeclarations declarations) name) of
           None \<Rightarrow> Inr (st\<lparr>keptNamed := keptNamed st @ [(name, importAlias namedImport)]\<rparr>)
         | Some resolvedFile \<Rightarrow>
             (case resolveSpecifier P paths sourceFile resolvedFile of
                Inl e \<Rightarrow> Inl e
              | Inr resolved \<Rightarrow>
                  let originalExportName =
                        (case reExportMap name of
                           None \<Rightarrow> name
                         | Some reExport \<Rightarrow>
                             if resolvedPath reExport = resolvedFile then localName reExport
                             else name)
                  in if resolved \<noteq> moduleSpecifier
                     then Inr (st\<lparr>rewrittenBySpecifier :=
                                    pushNamed resolved (originalExportName, usedName)
                                      (rewrittenBySpecifier st),
                                  changed := True\<rparr>)
                     else Inr (st\<lparr>keptNamed := keptNamed st @ [(name, importAlias namedImport)]\<rparr>)))"

fun forEachNamedImport ::
    "project \<Rightarrow> alias_table \<Rightarrow> source_file \<Rightarrow> source_file \<Rightarrow> string \<Rightarrow> reexport_map
      \<Rightarrow> named_import list \<Rightarrow> pid_state \<Rightarrow> error + pid_state" where
  "forEachNamedImport P paths sourceFile declarations moduleSpecifier reExportMap [] st = Inr st"
| "forEachNamedImport P paths sourceFile declarations moduleSpecifier reExportMap (namedImport # rest) st =
     (case processNamed P paths sourceFile declarations moduleSpecifier reExportMap namedImport st of
        Inl e \<Rightarrow> Inl e
      | Inr st' \<Rightarrow>
          forEachNamedImport P paths sourceFile declarations moduleSpecifier reExportMap rest st')"

text \<open>
  \<open>addImportDeclaration\<close> places the new declaration after the import
  declarations the file has.
\<close>

definition addImportDeclaration :: "source_file \<Rightarrow> import_decl \<Rightarrow> source_file" where
  "addImportDeclaration sf d = sf\<lparr>importDeclarations := importDeclarations sf @ [d]\<rparr>"

text \<open>The residual import: \<open>alias ? { name, alias } : name\<close> for every kept binding.\<close>

definition keptImport :: "string \<times> string option \<Rightarrow> named_import" where
  "keptImport k = \<lparr>importName = fst k, importAlias = (if truthy (snd k) then snd k else None)\<rparr>"

definition residualImport :: "string \<Rightarrow> (string \<times> string option) list \<Rightarrow> import_decl" where
  "residualImport moduleSpecifier kept =
     \<lparr>importSpecifier = moduleSpecifier, defaultImport = None, namedImports = map keptImport kept\<rparr>"

record pid_result =
  resultChanged :: bool
  rewrittenImports :: "(string \<times> rewritten) list"

text \<open>
  \<open>collectBindings\<close> is \<open>processImportDeclaration\<close> up to the final test of
  \<open>changed\<close>: the default import, then the named imports.
  \<open>processImportDeclaration\<close> returns its result and the source file, to which
  it has added the residual import.
\<close>

definition collectBindings ::
    "project \<Rightarrow> alias_table \<Rightarrow> source_file \<Rightarrow> source_file \<Rightarrow> string \<Rightarrow> reexport_map \<Rightarrow> import_decl
      \<Rightarrow> error + pid_state" where
  "collectBindings P paths sourceFile declarations moduleSpecifier reExportMap importDecl =
     (case processDefault P paths sourceFile declarations moduleSpecifier importDecl of
        Inl e \<Rightarrow> Inl e
      | Inr st0 \<Rightarrow>
          forEachNamedImport P paths sourceFile declarations moduleSpecifier reExportMap
            (namedImports importDecl) st0)"

definition processImportDeclaration ::
    "project \<Rightarrow> import_decl \<Rightarrow> source_file \<Rightarrow> source_file \<Rightarrow> string \<Rightarrow> reexport_map \<Rightarrow> alias_table
      \<Rightarrow> error + (source_file \<times> pid_result)" where
  "processImportDeclaration P importDecl declarations sourceFile moduleSpecifier reExportMap paths =
     (case collectBindings P paths sourceFile declarations moduleSpecifier reExportMap importDecl of
        Inl e \<Rightarrow> Inl e
      | Inr st \<Rightarrow>
          if changed st then
            Inr ((if length (keptNamed st) > 0
                  then addImportDeclaration sourceFile (residualImport moduleSpecifier (keptNamed st))
                  else sourceFile),
                 \<lparr>resultChanged = True, rewrittenImports = rewrittenBySpecifier st\<rparr>)
          else Inr (sourceFile, \<lparr>resultChanged = False, rewrittenImports = []\<rparr>))"

section \<open>The object importGroups\<close>

text \<open>
  \<open>importGroups\<close> is a plain object, written \<open>{}\<close>. Its own properties are
  kept as the list of the specifiers in the order in which they were created,
  each with its group: the \<open>Map\<close> from written name to local name, in insertion
  order, and the default import.

  \<open>Object.entries\<close> lists the own properties whose key is an array index (a
  canonical numeral below \<open>2^32 - 1\<close>) first, in ascending order, and then the
  other keys in the order of their creation.
\<close>

definition digitValue :: "char \<Rightarrow> nat" where
  "digitValue c = length (takeWhile (\<lambda>d. d \<noteq> c) ''0123456789'')"

definition indexValue :: "string \<Rightarrow> nat" where
  "indexValue s = foldl (\<lambda>n c. 10 * n + digitValue c) 0 s"

definition isArrayIndex :: "string \<Rightarrow> bool" where
  "isArrayIndex s =
     (s \<noteq> [] \<and> list_all (\<lambda>c. c \<in> set ''0123456789'') s
      \<and> (if hd s = CHR ''0'' then s = ''0'' else True)
      \<and> indexValue s < 4294967295)"

definition objectEntries :: "(string \<times> 'a) list \<Rightarrow> (string \<times> 'a) list" where
  "objectEntries props =
     sort_key (\<lambda>p. indexValue (fst p)) (filter (\<lambda>p. isArrayIndex (fst p)) props)
     @ filter (\<lambda>p. \<not> isArrayIndex (fst p)) props"

text \<open>
  A specifier that is not an own property of \<open>importGroups\<close> is looked up in
  \<open>Object.prototype\<close>. Its properties are the twelve names below; each holds
  a function, but \<open>__proto__\<close>, which gives \<open>Object.prototype\<close> itself. For
  such a specifier \<open>!importGroups[specifier]\<close> is false, so no group is
  created; the assignment of \<open>default\<close> lands on the inherited value; and
  \<open>importGroups[specifier].named\<close> is \<open>undefined\<close>, so the first
  \<open>named.set\<close> raises a TypeError.

  With the specifier \<open>__proto__\<close> the assignment of a default import gives
  \<open>Object.prototype\<close> a property \<open>default\<close>, which every object inherits from
  then on, in this file and in the files after it. The flag \<open>prototypeDefault\<close>
  says that this has happened. The inherited value is a non-empty string: for
  the specifier \<open>default\<close> no group is created then, an assignment to a
  property of the string raises a TypeError (the module is strict code), and so
  does \<open>named.set\<close>.
\<close>

definition objectPrototypeNames :: "string list" where
  "objectPrototypeNames =
     [''constructor'', ''__defineGetter__'', ''__defineSetter__'', ''hasOwnProperty'',
      ''__lookupGetter__'', ''__lookupSetter__'', ''isPrototypeOf'', ''propertyIsEnumerable'',
      ''toString'', ''valueOf'', ''__proto__'', ''toLocaleString'']"

type_synonym import_group = "(string \<times> string) list \<times> string option"

text \<open>
  The two updates of an own group: \<open>default\<close> is assigned when the default
  import is truthy, and \<open>named.set(name, alias)\<close> runs for every pair.
\<close>

definition mergeGroup :: "rewritten \<Rightarrow> import_group \<Rightarrow> import_group" where
  "mergeGroup w g =
     (fold (\<lambda>(name, used). AList.update name used) (fst w) (fst g),
      if truthy (snd w) then snd w else snd g)"

text \<open>
  The body of the loop over \<open>result.rewrittenImports\<close>, on the flag and the
  own properties of \<open>importGroups\<close>.
\<close>

type_synonym groups_state = "bool \<times> (string \<times> import_group) list"

definition mergeRewritten :: "string \<times> rewritten \<Rightarrow> groups_state \<Rightarrow> error + groups_state" where
  "mergeRewritten r st =
     (let specifier = fst r; named = fst (snd r); dflt = snd (snd r);
          prototypeDefault = fst st; groups = snd st
      in case map_of groups specifier of
           Some g \<Rightarrow> Inr (prototypeDefault, AList.update specifier (mergeGroup (snd r) g) groups)
         | None \<Rightarrow>
             if specifier \<in> set objectPrototypeNames then
               (if named \<noteq> [] then Inl TypeError
                else Inr (prototypeDefault \<or> (specifier = ''__proto__'' \<and> truthy dflt), groups))
             else if prototypeDefault \<and> specifier = ''default'' then
               (if truthy dflt \<or> named \<noteq> [] then Inl TypeError else Inr st)
             else Inr (prototypeDefault, groups @ [(specifier, mergeGroup (snd r) ([], None))]))"

fun forEachRewritten :: "(string \<times> rewritten) list \<Rightarrow> groups_state \<Rightarrow> error + groups_state" where
  "forEachRewritten [] st = Inr st"
| "forEachRewritten (r # rest) st =
     (case mergeRewritten r st of
        Inl e \<Rightarrow> Inl e
      | Inr st' \<Rightarrow> forEachRewritten rest st')"

section \<open>rewriteImportsInFile\<close>

record rewrite_state =
  importGroups :: "(string \<times> import_group) list"
  prototypeDefault :: bool
  importsToRemove :: "import_decl list"
  fileChanged :: bool
  currentFile :: source_file

definition isLocalImport :: "string list \<Rightarrow> string \<Rightarrow> bool" where
  "isLocalImport aliasPrefixes moduleSpecifier =
     (startsWith moduleSpecifier ''.'' \<or> list_ex (\<lambda>a. startsWith moduleSpecifier a) aliasPrefixes)"

text \<open>
  The target of an import that the tool looks into: the import is local, its
  specifier resolves, and the module it names has an export declaration.
\<close>

definition barrelTarget :: "project \<Rightarrow> string list \<Rightarrow> source_file \<Rightarrow> import_decl \<Rightarrow> source_file option" where
  "barrelTarget P aliasPrefixes sourceFile importDecl =
     (if \<not> isLocalImport aliasPrefixes (importSpecifier importDecl) then None
      else (case getModuleSpecifierSourceFile P sourceFile (importSpecifier importDecl) of
              None \<Rightarrow> None
            | Some declarations \<Rightarrow>
                if length (getExportDeclarations declarations) > 0 then Some declarations else None))"

text \<open>The body of the \<open>forEach\<close> over the import declarations.\<close>

definition rewriteStep ::
    "project \<Rightarrow> string list \<Rightarrow> alias_table \<Rightarrow> source_file \<Rightarrow> import_decl \<Rightarrow> rewrite_state
      \<Rightarrow> error + rewrite_state" where
  "rewriteStep P aliasPrefixes paths sourceFile importDecl st =
     (case barrelTarget P aliasPrefixes sourceFile importDecl of
        None \<Rightarrow> Inr st
      | Some declarations \<Rightarrow>
          (case processImportDeclaration P importDecl declarations (currentFile st)
                  (importSpecifier importDecl) (reExportMapOf P declarations) paths of
             Inl e \<Rightarrow> Inl e
           | Inr (sf', result) \<Rightarrow>
               if resultChanged result then
                 (case forEachRewritten (rewrittenImports result)
                         (prototypeDefault st, importGroups st) of
                    Inl e \<Rightarrow> Inl e
                  | Inr (flag, groups) \<Rightarrow>
                      Inr (st\<lparr>importGroups := groups,
                              prototypeDefault := flag,
                              importsToRemove := importsToRemove st @ [importDecl],
                              fileChanged := True,
                              currentFile := sf'\<rparr>))
               else Inr (st\<lparr>currentFile := sf'\<rparr>)))"

fun forEachImportDecl ::
    "project \<Rightarrow> string list \<Rightarrow> alias_table \<Rightarrow> source_file \<Rightarrow> import_decl list \<Rightarrow> rewrite_state
      \<Rightarrow> error + rewrite_state" where
  "forEachImportDecl P aliasPrefixes paths sourceFile [] st = Inr st"
| "forEachImportDecl P aliasPrefixes paths sourceFile (importDecl # rest) st =
     (case rewriteStep P aliasPrefixes paths sourceFile importDecl st of
        Inl e \<Rightarrow> Inl e
      | Inr st' \<Rightarrow> forEachImportDecl P aliasPrefixes paths sourceFile rest st')"

text \<open>
  \<open>decl.remove()\<close> for the declarations of \<open>importsToRemove\<close>: they are among
  the first \<open>n\<close> import declarations, those the file had when the loop began;
  the residual imports stand after them.
\<close>

definition removeImports :: "nat \<Rightarrow> import_decl list \<Rightarrow> source_file \<Rightarrow> source_file" where
  "removeImports n toRemove sf =
     sf\<lparr>importDeclarations :=
          filter (\<lambda>d. d \<notin> set toRemove) (take n (importDeclarations sf))
          @ drop n (importDeclarations sf)\<rparr>"

text \<open>The import built from a group: \<open>name === alias ? name : { name, alias }\<close>.\<close>

definition groupedImport :: "string \<times> import_group \<Rightarrow> import_decl" where
  "groupedImport g =
     \<lparr>importSpecifier = fst g, defaultImport = snd (snd g),
      namedImports = map (\<lambda>(name, used). \<lparr>importName = name,
                            importAlias = (if name = used then None else Some used)\<rparr>)
                       (fst (snd g))\<rparr>"

text \<open>
  The result of \<open>rewriteImportsInFile\<close>: the file as it stands in the end,
  whether it changed, whether \<open>saveSync\<close> was called, and the flag of
  \<open>Object.prototype\<close> as the call leaves it. The first argument is the flag
  as the call finds it.
\<close>

record rewrite_result =
  rewrittenFile :: source_file
  hasChanged :: bool
  saved :: bool
  prototypeDefaultAfter :: bool

definition rewriteImportsInFile ::
    "bool \<Rightarrow> project \<Rightarrow> string list \<Rightarrow> alias_table \<Rightarrow> bool \<Rightarrow> source_file \<Rightarrow> error + rewrite_result" where
  "rewriteImportsInFile flag P aliasPrefixes paths isDryRun sourceFile =
     (case forEachImportDecl P aliasPrefixes paths sourceFile (importDeclarations sourceFile)
             \<lparr>importGroups = [], prototypeDefault = flag, importsToRemove = [],
              fileChanged = False, currentFile = sourceFile\<rparr> of
        Inl e \<Rightarrow> Inl e
      | Inr st \<Rightarrow>
          (let removed = removeImports (length (importDeclarations sourceFile))
                           (importsToRemove st) (currentFile st);
               added = fold (\<lambda>g sf. addImportDeclaration sf (groupedImport g))
                         (objectEntries (importGroups st)) removed
           in Inr \<lparr>rewrittenFile = added, hasChanged = fileChanged st,
                    saved = (fileChanged st \<and> \<not> isDryRun),
                    prototypeDefaultAfter = prototypeDefault st\<rparr>))"

section \<open>What the rewrite does to one import declaration\<close>

text \<open>
  The notions the claims about the rewrite are stated with. The outcome of an
  import declaration is \<open>None\<close> when the tool does not look into it and
  otherwise the bindings that \<open>processImportDeclaration\<close> collects. The
  declaration is rewritten when \<open>changed\<close> is set; then it leaves a residual
  import if bindings were kept, and its rewritten entries join the stream that
  is merged into \<open>importGroups\<close>.
\<close>

definition importOutcome ::
    "project \<Rightarrow> string list \<Rightarrow> alias_table \<Rightarrow> source_file \<Rightarrow> import_decl \<Rightarrow> error + pid_state option" where
  "importOutcome P aliasPrefixes paths sf d =
     (case barrelTarget P aliasPrefixes sf d of
        None \<Rightarrow> Inr None
      | Some t \<Rightarrow>
          (case collectBindings P paths sf t (importSpecifier d) (reExportMapOf P t) d of
             Inl e \<Rightarrow> Inl e
           | Inr st \<Rightarrow> Inr (Some st)))"

definition isRewritten :: "project \<Rightarrow> string list \<Rightarrow> alias_table \<Rightarrow> source_file \<Rightarrow> import_decl \<Rightarrow> bool" where
  "isRewritten P aliasPrefixes paths sf d =
     (case importOutcome P aliasPrefixes paths sf d of
        Inr (Some st) \<Rightarrow> changed st
      | _ \<Rightarrow> False)"

definition residualsOf ::
    "project \<Rightarrow> string list \<Rightarrow> alias_table \<Rightarrow> source_file \<Rightarrow> import_decl \<Rightarrow> import_decl list" where
  "residualsOf P aliasPrefixes paths sf d =
     (case importOutcome P aliasPrefixes paths sf d of
        Inr (Some st) \<Rightarrow>
          if changed st \<and> keptNamed st \<noteq> []
          then [residualImport (importSpecifier d) (keptNamed st)] else []
      | _ \<Rightarrow> [])"

definition rewrittenOf ::
    "project \<Rightarrow> string list \<Rightarrow> alias_table \<Rightarrow> source_file \<Rightarrow> import_decl \<Rightarrow> (string \<times> rewritten) list" where
  "rewrittenOf P aliasPrefixes paths sf d =
     (case importOutcome P aliasPrefixes paths sf d of
        Inr (Some st) \<Rightarrow> if changed st then rewrittenBySpecifier st else []
      | _ \<Rightarrow> [])"

definition rewrittenStream ::
    "project \<Rightarrow> string list \<Rightarrow> alias_table \<Rightarrow> source_file \<Rightarrow> (string \<times> rewritten) list" where
  "rewrittenStream P aliasPrefixes paths sf =
     concat (map (rewrittenOf P aliasPrefixes paths sf) (importDeclarations sf))"

text \<open>
  The groups that the stream leaves in \<open>importGroups\<close>, starting from the
  empty object, and the imports that \<open>Object.entries\<close> then gives.
\<close>

definition mergedGroups ::
    "bool \<Rightarrow> project \<Rightarrow> string list \<Rightarrow> alias_table \<Rightarrow> source_file \<Rightarrow> error + groups_state" where
  "mergedGroups flag P aliasPrefixes paths sf =
     forEachRewritten (rewrittenStream P aliasPrefixes paths sf) (flag, [])"

definition emittedImports ::
    "bool \<Rightarrow> project \<Rightarrow> string list \<Rightarrow> alias_table \<Rightarrow> source_file \<Rightarrow> import_decl list" where
  "emittedImports flag P aliasPrefixes paths sf =
     (case mergedGroups flag P aliasPrefixes paths sf of
        Inl e \<Rightarrow> []
      | Inr st \<Rightarrow> map groupedImport (objectEntries (snd st)))"






section \<open>The entry point\<close>

text \<open>
  What \<open>runBarrelBreaker\<close> reads from the outside. \<open>new Project\<close> for a
  tsconfig path gives the project or throws: \<open>ENOENT\<close> stands for the error
  of a file that is not there, \<open>ConfigError\<close> for the error of a tsconfig
  file that ts-morph cannot parse. \<open>readTsconfig\<close> is
  \<open>JSON.parse(fs.readFileSync(tsconfigPath, "utf-8"))\<close>: the file is missing,
  or is no JSON text, or parses to \<open>null\<close>, or parses to a value whose
  \<open>compilerOptions?.paths\<close> is falsy (\<open>None\<close>) or a table.
  \<open>statSync\<close> is \<open>fs.statSync(p).isFile()\<close> (\<open>None\<close> when the path does
  not exist). \<open>addSourceFileAtPath\<close> gives the source file of a path
  (\<open>None\<close> when ts-morph does not find the file) and
  \<open>addSourceFilesAtPaths\<close> the source files that match a glob.
\<close>

datatype tsconfig_read = Missing | Malformed | ParsedNull | Parsed "alias_table option"

datatype run_error = ENOENT | SyntaxError | ConfigError | Thrown error

record world =
  newProject :: "string \<Rightarrow> run_error + project"
  readTsconfig :: "string \<Rightarrow> tsconfig_read"
  statSync :: "string \<Rightarrow> bool option"
  addSourceFileAtPath :: "string \<Rightarrow> source_file option"
  addSourceFilesAtPaths :: "string \<Rightarrow> source_file list"

definition collectSourceFiles :: "world \<Rightarrow> project \<Rightarrow> string \<Rightarrow> run_error + source_file list" where
  "collectSourceFiles W P inputPath =
     (let resolved = pathResolve P [inputPath]
      in case statSync W resolved of
           None \<Rightarrow> Inl ENOENT
         | Some isFile \<Rightarrow>
             if isFile then
               (case addSourceFileAtPath W resolved of
                  None \<Rightarrow> Inl ENOENT
                | Some sf \<Rightarrow> Inr [sf])
             else Inr (addSourceFilesAtPaths W (resolved @ ''/**/*.{ts,tsx}'')))"

text \<open>
  The \<open>forEach\<close> over the source files. A file finds \<open>Object.prototype\<close> as
  the file before it left it.
\<close>

fun forEachSourceFile ::
    "bool \<Rightarrow> project \<Rightarrow> string list \<Rightarrow> alias_table \<Rightarrow> bool \<Rightarrow> source_file list
      \<Rightarrow> run_error + rewrite_result list" where
  "forEachSourceFile flag P aliasPrefixes paths isDryRun [] = Inr []"
| "forEachSourceFile flag P aliasPrefixes paths isDryRun (sourceFile # rest) =
     (case rewriteImportsInFile flag P aliasPrefixes paths isDryRun sourceFile of
        Inl e \<Rightarrow> Inl (Thrown e)
      | Inr r \<Rightarrow>
          (case forEachSourceFile (prototypeDefaultAfter r) P aliasPrefixes paths isDryRun rest of
             Inl e \<Rightarrow> Inl e
           | Inr rs \<Rightarrow> Inr (r # rs)))"

text \<open>
  \<open>runBarrelBreaker\<close> of \<open>src/lib/barrelBreaker.js\<close>. It builds the project
  and reads the tsconfig file without asking whether the file exists;
  \<open>tsconfig.compilerOptions\<close> on \<open>null\<close> raises a TypeError. When the run
  starts, \<open>Object.prototype\<close> has no property \<open>default\<close>. The analysis of
  each file uses the answers of the type checker as the project gives them.
\<close>

definition runBarrelBreaker :: "world \<Rightarrow> string \<Rightarrow> bool \<Rightarrow> string \<Rightarrow> run_error + rewrite_result list" where
  "runBarrelBreaker W inputPath isDryRun tsconfigPath =
     (case newProject W tsconfigPath of
        Inl e \<Rightarrow> Inl e
      | Inr P \<Rightarrow>
          (case readTsconfig W tsconfigPath of
             Missing \<Rightarrow> Inl ENOENT
           | Malformed \<Rightarrow> Inl SyntaxError
           | ParsedNull \<Rightarrow> Inl (Thrown TypeError)
           | Parsed tsPaths \<Rightarrow>
               (let paths = (case tsPaths of None \<Rightarrow> [] | Some p \<Rightarrow> p);
                    aliasPrefixes = map (\<lambda>p. replaceString p ''/*'' []) (map fst paths)
                in case collectSourceFiles W P inputPath of
                     Inl e \<Rightarrow> Inl e
                   | Inr files \<Rightarrow> forEachSourceFile False P aliasPrefixes paths isDryRun files)))"

text \<open>
  The initialization section of the later revision of \<open>runBarrelBreaker\<close>
  (\<open>src/unnamed/part_002\<close>), up to the call of \<open>collectSourceFiles\<close>: it asks
  \<open>fs.existsSync\<close> before it reads the file and again before it builds the
  project; without the file it warns on the console each time and goes on with
  \<open>{ compilerOptions: { paths: {} } }\<close> and \<open>new Project()\<close>. The result holds
  the warnings, the paths and the project.
\<close>

record initialized =
  warnings :: "string list"
  pathsConfig :: alias_table
  initAliasPrefixes :: "string list"
  initProject :: project

definition initializeLater ::
    "world \<Rightarrow> (string \<Rightarrow> bool) \<Rightarrow> project \<Rightarrow> string \<Rightarrow> run_error + initialized" where
  "initializeLater W tsconfigExists defaultProject tsconfigPath =
     (case (if tsconfigExists tsconfigPath
            then (case readTsconfig W tsconfigPath of
                    Missing \<Rightarrow> Inl ENOENT
                  | Malformed \<Rightarrow> Inl SyntaxError
                  | ParsedNull \<Rightarrow> Inl (Thrown TypeError)
                  | Parsed tsPaths \<Rightarrow> Inr ([], tsPaths))
            else Inr ([''Warning: tsconfig.json not found at '' @ tsconfigPath
                       @ ''. Be sure to pass a path to the tsconfig.json via --tsconfig if you are executing in a Typescript project. Proceeding with default configuration.''],
                      Some [])) of
        Inl e \<Rightarrow> Inl e
      | Inr (warned, tsPaths) \<Rightarrow>
          (let paths = (case tsPaths of None \<Rightarrow> [] | Some p \<Rightarrow> p);
               aliasPrefixes = map (\<lambda>p. replaceString p ''/*'' []) (map fst paths)
           in if tsconfigExists tsconfigPath
              then (case newProject W tsconfigPath of
                      Inl e \<Rightarrow> Inl e
                    | Inr P \<Rightarrow> Inr \<lparr>warnings = warned, pathsConfig = paths,
                                      initAliasPrefixes = aliasPrefixes, initProject = P\<rparr>)
              else Inr \<lparr>warnings = warned
                          @ [''Warning: tsconfig.json not found at '' @ tsconfigPath
                             @ ''. Proceeding with default configuration.''],
                        pathsConfig = paths, initAliasPrefixes = aliasPrefixes,
                        initProject = defaultProject\<rparr>))"

section \<open>Example modules\<close>

text \<open>
  Four modules for the purge: \<open>export * from './module'\<close> alone (a pure
  barrel); the same followed by \<open>export const impure = 'impure'\<close> (an impure
  barrel); a module with no export declaration; and an empty module.
\<close>

definition reExportAll :: "string \<Rightarrow> export_decl" where
  "reExportAll spec = \<lparr>exportSpecifier = Some spec, isNamespaceExport = True, namedExports = []\<rparr>"

definition pureBarrelExample :: source_file where
  "pureBarrelExample =
     \<lparr>filePath = ''/fixture/modules/index.ts'', importDeclarations = [],
      otherStatements = [ExportDeclaration (reExportAll ''./module'')],
      exportedDeclarations = [], defaultExportDeclarations = None\<rparr>"

definition impureBarrelExample :: source_file where
  "impureBarrelExample =
     \<lparr>filePath = ''/fixture/modules/impure-barrel/index.ts'', importDeclarations = [],
      otherStatements = [ExportDeclaration (reExportAll ''./module''), OtherStatement],
      exportedDeclarations = [(''impure'', [''/fixture/modules/impure-barrel/index.ts''])],
      defaultExportDeclarations = None\<rparr>"

definition plainModuleExample :: source_file where
  "plainModuleExample =
     \<lparr>filePath = ''/fixture/modules/module.ts'', importDeclarations = [],
      otherStatements = [OtherStatement],
      exportedDeclarations = [(''value'', [''/fixture/modules/module.ts''])],
      defaultExportDeclarations = None\<rparr>"

definition emptyModuleExample :: source_file where
  "emptyModuleExample =
     \<lparr>filePath = ''/fixture/empty.ts'', importDeclarations = [], otherStatements = [],
      exportedDeclarations = [], defaultExportDeclarations = None\<rparr>"

text \<open>
  A host for the examples: the working directory is \<open>/repo\<close>, paths are POSIX
  paths, and a relative path is computed only for files below the directory.
\<close>

definition dropDotSlash :: "string \<Rightarrow> string" where
  "dropDotSlash s = (if startsWith s ''./'' then drop 2 s else s)"

definition examplePathResolve :: "string list \<Rightarrow> string" where
  "examplePathResolve segs =
     (case segs of
        [b] \<Rightarrow> ''/repo/'' @ dropDotSlash b
      | [d, s] \<Rightarrow> d @ ''/'' @ dropDotSlash s
      | _ \<Rightarrow> [])"

definition examplePathDirname :: "string \<Rightarrow> string" where
  "examplePathDirname p = rev (drop 1 (dropWhile (\<lambda>c. c \<noteq> CHR ''/'') (rev p)))"

definition examplePathRelative :: "string \<Rightarrow> string \<Rightarrow> string" where
  "examplePathRelative dir to =
     (if startsWith to (dir @ ''/'') then drop (length dir + 1) to else to)"



text \<open>
  Module resolution for the examples: a relative specifier names the file with
  extension \<open>.ts\<close> or the \<open>index.ts\<close> of the directory, below the directory of
  the importing file.
\<close>

definition exampleResolveModule :: "string list \<Rightarrow> string \<Rightarrow> string \<Rightarrow> string option" where
  "exampleResolveModule paths from spec =
     (let base = examplePathResolve [examplePathDirname from, spec]
      in if \<not> startsWith spec ''.'' then None
         else if base @ ''.ts'' \<in> set paths then Some (base @ ''.ts'')
         else if base @ ''/index.ts'' \<in> set paths then Some (base @ ''/index.ts'')
         else None)"

definition exampleProject :: "source_file list \<Rightarrow> project" where
  "exampleProject files =
     \<lparr>pathResolve = examplePathResolve, pathDirname = examplePathDirname,
      pathJoin = (\<lambda>a b. a @ ''/'' @ b), pathRelative = examplePathRelative,
      existsSync = (\<lambda>p. False),
      sourceFiles = files, resolveModule = exampleResolveModule (map filePath files)\<rparr>"

definition reExportNamed :: "string \<Rightarrow> (string \<times> string option) list \<Rightarrow> export_decl" where
  "reExportNamed spec names =
     \<lparr>exportSpecifier = Some spec, isNamespaceExport = False,
      namedExports = map (\<lambda>(n, a). \<lparr>specName = n, specAlias = a\<rparr>) names\<rparr>"

definition declaringModule :: "string \<Rightarrow> string list \<Rightarrow> source_file" where
  "declaringModule p names =
     \<lparr>filePath = p, importDeclarations = [], otherStatements = [OtherStatement],
      exportedDeclarations = map (\<lambda>n. (n, [p])) names, defaultExportDeclarations = None\<rparr>"

text \<open>
  A cycle: \<open>a.ts\<close> holds \<open>export * from './b'\<close> and
  \<open>export { alpha } from './alpha'\<close>; \<open>b.ts\<close> holds \<open>export * from './a'\<close>
  and \<open>export { beta as b2 } from './beta'\<close>.
\<close>

definition cycleA :: source_file where
  "cycleA =
     \<lparr>filePath = ''/repo/a.ts'', importDeclarations = [],
      otherStatements = [ExportDeclaration (reExportAll ''./b''),
                         ExportDeclaration (reExportNamed ''./alpha'' [(''alpha'', None)])],
      exportedDeclarations = [(''alpha'', [''/repo/alpha.ts'']), (''b2'', [''/repo/beta.ts''])],
      defaultExportDeclarations = None\<rparr>"

definition cycleB :: source_file where
  "cycleB =
     \<lparr>filePath = ''/repo/b.ts'', importDeclarations = [],
      otherStatements = [ExportDeclaration (reExportAll ''./a''),
                         ExportDeclaration (reExportNamed ''./beta'' [(''beta'', Some ''b2'')])],
      exportedDeclarations = [(''alpha'', [''/repo/alpha.ts'']), (''b2'', [''/repo/beta.ts''])],
      defaultExportDeclarations = None\<rparr>"

definition cycleProject :: project where
  "cycleProject =
     exampleProject [cycleA, cycleB, declaringModule ''/repo/alpha.ts'' [''alpha''],
                     declaringModule ''/repo/beta.ts'' [''beta'']]"






text \<open>
  A barrel with a nested barrel. \<open>modules/index.ts\<close> holds
  \<open>export { default } from './default-export'\<close>,
  \<open>export { named } from './named-export'\<close> and \<open>export * from './nested'\<close>;
  \<open>modules/nested/index.ts\<close> holds
  \<open>export { actualNested as nested } from './nested-export'\<close>. The default
  export symbol of the barrel is declared by its own export specifier.
\<close>

definition modulesIndex :: source_file where
  "modulesIndex =
     \<lparr>filePath = ''/repo/modules/index.ts'', importDeclarations = [],
      otherStatements =
        [ExportDeclaration (reExportNamed ''./default-export'' [(''default'', None)]),
         ExportDeclaration (reExportNamed ''./named-export'' [(''named'', None)]),
         ExportDeclaration (reExportAll ''./nested'')],
      exportedDeclarations =
        [(''default'', [''/repo/modules/default-export.ts'']),
         (''named'', [''/repo/modules/named-export.ts'']),
         (''nested'', [''/repo/modules/nested/nested-export.ts''])],
      defaultExportDeclarations = Some [''/repo/modules/index.ts'']\<rparr>"

definition nestedIndex :: source_file where
  "nestedIndex =
     \<lparr>filePath = ''/repo/modules/nested/index.ts'', importDeclarations = [],
      otherStatements =
        [ExportDeclaration (reExportNamed ''./nested-export'' [(''actualNested'', Some ''nested'')])],
      exportedDeclarations = [(''nested'', [''/repo/modules/nested/nested-export.ts''])],
      defaultExportDeclarations = None\<rparr>"

definition namedImport :: "string \<Rightarrow> named_import" where
  "namedImport n = \<lparr>importName = n, importAlias = None\<rparr>"

definition aliasedImport :: "string \<Rightarrow> string \<Rightarrow> named_import" where
  "aliasedImport n a = \<lparr>importName = n, importAlias = Some a\<rparr>"

definition importingFile :: "string \<Rightarrow> import_decl list \<Rightarrow> source_file" where
  "importingFile p imports =
     \<lparr>filePath = p, importDeclarations = imports, otherStatements = [OtherStatement],
      exportedDeclarations = [], defaultExportDeclarations = None\<rparr>"

text \<open>
  \<open>import-example.ts\<close> holds
  \<open>import defaultExport, { named, nested as n, missing } from './modules'\<close>.
\<close>

definition modulesImport :: import_decl where
  "modulesImport =
     \<lparr>importSpecifier = ''./modules'', defaultImport = Some ''defaultExport'',
      namedImports = [namedImport ''named'', aliasedImport ''nested'' ''n'',
                      namedImport ''missing'']\<rparr>"

definition importExample :: source_file where
  "importExample = importingFile ''/repo/import-example.ts'' [modulesImport]"

text \<open>
  What the rewrite makes of it: \<open>import { missing } from './modules'\<close>,
  \<open>import defaultExport from './modules/index'\<close>,
  \<open>import { named } from './modules/named-export'\<close> and
  \<open>import { actualNested as n } from './modules/nested/nested-export'\<close>.
\<close>

definition importExampleRewritten :: source_file where
  "importExampleRewritten =
     importingFile ''/repo/import-example.ts''
       [\<lparr>importSpecifier = ''./modules'', defaultImport = None,
          namedImports = [namedImport ''missing'']\<rparr>,
        \<lparr>importSpecifier = ''./modules/index'', defaultImport = Some ''defaultExport'',
          namedImports = []\<rparr>,
        \<lparr>importSpecifier = ''./modules/named-export'', defaultImport = None,
          namedImports = [namedImport ''named'']\<rparr>,
        \<lparr>importSpecifier = ''./modules/nested/nested-export'', defaultImport = None,
          namedImports = [aliasedImport ''actualNested'' ''n'']\<rparr>]"

text \<open>
  \<open>merge-example.ts\<close> holds \<open>import d1, { named } from './modules'\<close> and
  \<open>import d2, { named as n2, nested } from './modules'\<close>.
\<close>

definition mergeExample :: source_file where
  "mergeExample =
     importingFile ''/repo/merge-example.ts''
       [\<lparr>importSpecifier = ''./modules'', defaultImport = Some ''d1'',
         namedImports = [namedImport ''named'']\<rparr>,
        \<lparr>importSpecifier = ''./modules'', defaultImport = Some ''d2'',
         namedImports = [aliasedImport ''named'' ''n2'', namedImport ''nested'']\<rparr>]"

text \<open>\<open>twice-example.ts\<close> holds \<open>import { named as a, named as b } from './modules'\<close>.\<close>

definition twiceExample :: source_file where
  "twiceExample =
     importingFile ''/repo/twice-example.ts''
       [\<lparr>importSpecifier = ''./modules'', defaultImport = None,
         namedImports = [aliasedImport ''named'' ''a'', aliasedImport ''named'' ''b'']\<rparr>]"

definition fixtureProject :: project where
  "fixtureProject =
     exampleProject
       [importExample, mergeExample, twiceExample, modulesIndex, nestedIndex,
        declaringModule ''/repo/modules/default-export.ts'' [''default''],
        declaringModule ''/repo/modules/named-export.ts'' [''named''],
        declaringModule ''/repo/modules/nested/nested-export.ts'' [''actualNested'']]"

text \<open>
  A module that exports its own symbol through an export declaration without a
  module specifier: \<open>lib/index.ts\<close> holds \<open>const x = 1\<close> and \<open>export { x }\<close>.
  \<open>plain.ts\<close> holds \<open>export const y = 2\<close> and no export declaration.
  \<open>lib-main.ts\<close> holds \<open>import { x } from './lib'\<close> and
  \<open>import { y } from './plain'\<close>.
\<close>

definition exportLocal :: "string list \<Rightarrow> export_decl" where
  "exportLocal names =
     \<lparr>exportSpecifier = None, isNamespaceExport = False,
      namedExports = map (\<lambda>n. \<lparr>specName = n, specAlias = None\<rparr>) names\<rparr>"

definition libIndex :: source_file where
  "libIndex =
     \<lparr>filePath = ''/repo/lib/index.ts'', importDeclarations = [],
      otherStatements = [OtherStatement, ExportDeclaration (exportLocal [''x''])],
      exportedDeclarations = [(''x'', [''/repo/lib/index.ts''])],
      defaultExportDeclarations = None\<rparr>"

definition importX :: import_decl where
  "importX = \<lparr>importSpecifier = ''./lib'', defaultImport = None, namedImports = [namedImport ''x'']\<rparr>"

definition importY :: import_decl where
  "importY = \<lparr>importSpecifier = ''./plain'', defaultImport = None, namedImports = [namedImport ''y'']\<rparr>"

definition libMain :: source_file where
  "libMain = importingFile ''/repo/lib-main.ts'' [importX, importY]"

definition libProject :: project where
  "libProject = exampleProject [libMain, libIndex, declaringModule ''/repo/plain.ts'' [''y'']]"

text \<open>
  What the rewrite makes of \<open>merge-example.ts\<close>:
  \<open>import d2 from './modules/index'\<close>,
  \<open>import { named as n2 } from './modules/named-export'\<close> and
  \<open>import { actualNested as nested } from './modules/nested/nested-export'\<close>.
\<close>

definition mergeExampleEmitted :: "import_decl list" where
  "mergeExampleEmitted =
     [\<lparr>importSpecifier = ''./modules/index'', defaultImport = Some ''d2'', namedImports = []\<rparr>,
      \<lparr>importSpecifier = ''./modules/named-export'', defaultImport = None,
        namedImports = [aliasedImport ''named'' ''n2'']\<rparr>,
      \<lparr>importSpecifier = ''./modules/nested/nested-export'', defaultImport = None,
        namedImports = [aliasedImport ''actualNested'' ''nested'']\<rparr>]"



text \<open>A world in which the tsconfig file does not exist.\<close>

definition noTsconfigWorld :: world where
  "noTsconfigWorld =
     \<lparr>newProject = (\<lambda>p. Inl ENOENT), readTsconfig = (\<lambda>p. Missing),
      statSync = (\<lambda>p. if p = ''/repo/fixture'' then Some False else None),
      addSourceFileAtPath = (\<lambda>p. None), addSourceFilesAtPaths = (\<lambda>g. [])\<rparr>"


text \<open>
  Aliases with the names of properties of \<open>Object.prototype\<close>: tsconfig.json
  holds \<open>"paths": { "toString": ["components/index.ts"],
  "valueOf": ["components/button.ts"] }\<close>. \<open>components/index.ts\<close> holds
  \<open>export { default, button } from './button'\<close>, and
  \<open>components/button.ts\<close> declares both; the default export symbol of the
  barrel is declared by its own export specifier. \<open>default-only.ts\<close> holds
  \<open>import Button from './components'\<close> and \<open>named-only.ts\<close> holds
  \<open>import { button } from './components'\<close>.
\<close>

definition inheritedAliases :: alias_table where
  "inheritedAliases =
     [(''toString'', Some [''components/index.ts'']),
      (''valueOf'', Some [''components/button.ts''])]"

definition componentsIndex :: source_file where
  "componentsIndex =
     \<lparr>filePath = ''/repo/components/index.ts'', importDeclarations = [],
      otherStatements =
        [ExportDeclaration (reExportNamed ''./button'' [(''default'', None), (''button'', None)])],
      exportedDeclarations =
        [(''default'', [''/repo/components/button.ts'']),
         (''button'', [''/repo/components/button.ts''])],
      defaultExportDeclarations = Some [''/repo/components/index.ts'']\<rparr>"

definition buttonModule :: source_file where
  "buttonModule =
     \<lparr>filePath = ''/repo/components/button.ts'', importDeclarations = [],
      otherStatements = [OtherStatement, OtherStatement],
      exportedDeclarations =
        [(''default'', [''/repo/components/button.ts'']),
         (''button'', [''/repo/components/button.ts''])],
      defaultExportDeclarations = Some [''/repo/components/button.ts'']\<rparr>"

definition defaultOnly :: source_file where
  "defaultOnly =
     importingFile ''/repo/default-only.ts''
       [\<lparr>importSpecifier = ''./components'', defaultImport = Some ''Button'',
         namedImports = []\<rparr>]"

definition namedOnly :: source_file where
  "namedOnly =
     importingFile ''/repo/named-only.ts''
       [\<lparr>importSpecifier = ''./components'', defaultImport = None,
         namedImports = [namedImport ''button'']\<rparr>]"

definition componentsProject :: project where
  "componentsProject = exampleProject [defaultOnly, namedOnly, componentsIndex, buttonModule]"

section \<open>Evaluating the examples\<close>

lemmas string_defs = startsWith_def endsWith_def replaceString_def stripTsExtension_def
  slashes_def truthy_def

lemmas alias_defs = absoluteBase_def aliasSpecifier_def aliasPrefix_def


lemmas example_defs = exampleProject_def exampleResolveModule_def examplePathResolve_def
  examplePathDirname_def examplePathRelative_def dropDotSlash_def reExportAll_def
  reExportNamed_def declaringModule_def

lemmas project_defs = getSourceFile_def targetSource_def getModuleSpecifierSourceFile_def
  probeFullPath_def getExportDeclarations_def setNamedExport_def exportedNameOf_def orElse_def
  depthBound_def reExportMapOf_def Let_def

lemmas cycle_defs = cycleProject_def cycleA_def cycleB_def


lemmas fixture_defs = fixtureProject_def importExample_def modulesImport_def
  importExampleRewritten_def mergeExample_def twiceExample_def
  modulesIndex_def nestedIndex_def namedImport_def aliasedImport_def importingFile_def

lemmas lib_defs = libProject_def libMain_def libIndex_def importX_def importY_def exportLocal_def
  namedImport_def importingFile_def

lemma isArrayIndex_no_digit:
  "c \<notin> set ''0123456789'' \<Longrightarrow> isArrayIndex (c # cs) = False"
  by (simp add: isArrayIndex_def)

lemmas object_defs = objectEntries_def isArrayIndex_no_digit objectPrototypeNames_def

text \<open>
  \<open>Object.entries\<close> on an object whose keys were created in the order
  \<open>./b\<close>, \<open>10\<close>, \<open>9\<close>, \<open>01\<close>: the array indices \<open>9\<close> and \<open>10\<close> come
  first, in ascending order.
\<close>

lemma objectEntries_index_keys_first:
  "objectEntries [(''./b'', 1::nat), (''10'', 2), (''9'', 3), (''01'', 4)]
     = [(''9'', 3), (''10'', 2), (''./b'', 1), (''01'', 4)]"
  by (simp add: objectEntries_def isArrayIndex_def indexValue_def digitValue_def)

lemmas rewrite_defs = rewriteImportsInFile_def rewriteStep_def barrelTarget_def isLocalImport_def
  processImportDeclaration_def collectBindings_def processDefault_def processNamed_def
  resolveSpecifier_def getRelativePath_def pushNamed_def mergeRewritten_def mergeGroup_def
  removeImports_def groupedImport_def addImportDeclaration_def residualImport_def keptImport_def
  object_defs

lemmas components_defs = componentsProject_def componentsIndex_def buttonModule_def
  defaultOnly_def namedOnly_def inheritedAliases_def namedImport_def importingFile_def




section \<open>The purge: pure barrels and the partition\<close>

lemma isReExportStatement_iff:
  "isReExportStatement s \<longleftrightarrow> (\<exists>d. s = Inr (ExportDeclaration d) \<and> truthy (exportSpecifier d))"
  by (cases s rule: isReExportStatement.cases) auto

lemma isPureBarrelFile_iff:
  "isPureBarrelFile sf \<longleftrightarrow>
     getStatements sf \<noteq> [] \<and>
     (\<forall>s \<in> set (getStatements sf). \<exists>d. s = Inr (ExportDeclaration d) \<and> truthy (exportSpecifier d))"
  by (auto simp: isPureBarrelFile_def Let_def list_all_iff isReExportStatement_iff)

lemma exportDeclarationsOf_empty_iff:
  "exportDeclarationsOf ss = [] \<longleftrightarrow> (\<forall>s \<in> set ss. s = OtherStatement)"
  by (induction ss rule: exportDeclarationsOf.induct) auto

lemma pure_has_export:
  "isPureBarrelFile sf \<Longrightarrow> getExportDeclarations sf \<noteq> []"
  unfolding isPureBarrelFile_iff getExportDeclarations_def getStatements_def
    exportDeclarationsOf_empty_iff
  apply (cases "importDeclarations sf")
   apply (cases "otherStatements sf")
    apply auto
  done

lemma fold_purgeStep_pure:
  "set (pureBarrelFiles (fold purgeStep fs r)) =
     set (pureBarrelFiles r) \<union>
     {sf \<in> set fs. getExportDeclarations sf \<noteq> [] \<and> isPureBarrelFile sf}"
  by (induction fs arbitrary: r) (auto simp: purgeStep_def)

lemma fold_purgeStep_impure:
  "set (impureBarrelFiles (fold purgeStep fs r)) =
     set (impureBarrelFiles r) \<union>
     {sf \<in> set fs. getExportDeclarations sf \<noteq> [] \<and> \<not> isPureBarrelFile sf}"
  by (induction fs arbitrary: r) (auto simp: purgeStep_def)

lemma purgeBarrels_pure:
  "set (pureBarrelFiles (purgeBarrels fs dry)) =
     {sf \<in> set fs. getExportDeclarations sf \<noteq> [] \<and> isPureBarrelFile sf}"
  by (simp add: purgeBarrels_def Let_def fold_purgeStep_pure)

lemma purgeBarrels_impure:
  "set (impureBarrelFiles (purgeBarrels fs dry)) =
     {sf \<in> set fs. getExportDeclarations sf \<noteq> [] \<and> \<not> isPureBarrelFile sf}"
  by (simp add: purgeBarrels_def Let_def fold_purgeStep_impure)

text \<open>
  Claim C8. \<open>isPureBarrelFile\<close> holds exactly when the module has at least one
  top-level statement and every top-level statement is an export declaration
  whose module specifier passes the code's test \<open>!!getModuleSpecifierValue()\<close>;
  a module with no statement is never a pure barrel; and for every scanned
  module exactly one of three cases holds: it is listed as a pure barrel (and
  then \<open>isPureBarrelFile\<close> holds of it), it is listed as an impure barrel, or it
  has no export declaration and is listed in neither.
\<close>

theorem isPureBarrelFile_partition:
  "(isPureBarrelFile sf \<longleftrightarrow>
      getStatements sf \<noteq> [] \<and>
      (\<forall>s \<in> set (getStatements sf). \<exists>d. s = Inr (ExportDeclaration d) \<and> truthy (exportSpecifier d)))
   \<and> (getStatements sf = [] \<longrightarrow> \<not> isPureBarrelFile sf)
   \<and> (sf \<in> set fs \<longrightarrow>
        (sf \<in> set (pureBarrelFiles (purgeBarrels fs dry))
           \<and> sf \<notin> set (impureBarrelFiles (purgeBarrels fs dry)) \<and> isPureBarrelFile sf)
        \<or> (sf \<notin> set (pureBarrelFiles (purgeBarrels fs dry))
           \<and> sf \<in> set (impureBarrelFiles (purgeBarrels fs dry))
           \<and> \<not> isPureBarrelFile sf \<and> getExportDeclarations sf \<noteq> [])
        \<or> (sf \<notin> set (pureBarrelFiles (purgeBarrels fs dry))
           \<and> sf \<notin> set (impureBarrelFiles (purgeBarrels fs dry))
           \<and> \<not> isPureBarrelFile sf \<and> getExportDeclarations sf = []))"
proof (intro conjI impI)
  show "isPureBarrelFile sf \<longleftrightarrow>
      getStatements sf \<noteq> [] \<and>
      (\<forall>s \<in> set (getStatements sf). \<exists>d. s = Inr (ExportDeclaration d) \<and> truthy (exportSpecifier d))"
    by (rule isPureBarrelFile_iff)
next
  assume "getStatements sf = []"
  then show "\<not> isPureBarrelFile sf"
    by (simp add: isPureBarrelFile_iff)
next
  assume "sf \<in> set fs"
  then show "(sf \<in> set (pureBarrelFiles (purgeBarrels fs dry))
           \<and> sf \<notin> set (impureBarrelFiles (purgeBarrels fs dry)) \<and> isPureBarrelFile sf)
        \<or> (sf \<notin> set (pureBarrelFiles (purgeBarrels fs dry))
           \<and> sf \<in> set (impureBarrelFiles (purgeBarrels fs dry))
           \<and> \<not> isPureBarrelFile sf \<and> getExportDeclarations sf \<noteq> [])
        \<or> (sf \<notin> set (pureBarrelFiles (purgeBarrels fs dry))
           \<and> sf \<notin> set (impureBarrelFiles (purgeBarrels fs dry))
           \<and> \<not> isPureBarrelFile sf \<and> getExportDeclarations sf = [])"
    using pure_has_export [of sf]
    by (auto simp: purgeBarrels_pure purgeBarrels_impure)
qed

theorem isPureBarrelFile_partition_witness:
  "isPureBarrelFile pureBarrelExample
   \<and> getStatements emptyModuleExample = [] \<and> \<not> isPureBarrelFile emptyModuleExample
   \<and> impureBarrelExample \<in> set [pureBarrelExample, impureBarrelExample, plainModuleExample]
   \<and> impureBarrelExample \<in> set (impureBarrelFiles
        (purgeBarrels [pureBarrelExample, impureBarrelExample, plainModuleExample] False))
   \<and> impureBarrelExample \<notin> set (pureBarrelFiles
        (purgeBarrels [pureBarrelExample, impureBarrelExample, plainModuleExample] False))
   \<and> unlinked (purgeBarrels [pureBarrelExample, impureBarrelExample, plainModuleExample] False)
       = [''/fixture/modules/index.ts'']"
proof -
  have stmts: "getStatements emptyModuleExample = []"
    by (simp add: getStatements_def emptyModuleExample_def)
  have mem: "impureBarrelExample \<in> set [pureBarrelExample, impureBarrelExample, plainModuleExample]"
    by simp
  have pure: "isPureBarrelFile pureBarrelExample"
    by (simp add: isPureBarrelFile_def getStatements_def pureBarrelExample_def
        reExportAll_def truthy_def)
  have impure: "\<not> isPureBarrelFile impureBarrelExample"
    by (simp add: isPureBarrelFile_def getStatements_def impureBarrelExample_def
        reExportAll_def truthy_def)
  have plain: "getExportDeclarations plainModuleExample = []"
    by (simp add: getExportDeclarations_def plainModuleExample_def)
  have ex1: "getExportDeclarations pureBarrelExample \<noteq> []"
    by (simp add: getExportDeclarations_def pureBarrelExample_def)
  have ex2: "getExportDeclarations impureBarrelExample \<noteq> []"
    by (simp add: getExportDeclarations_def impureBarrelExample_def)
  have run: "purgeBarrels [pureBarrelExample, impureBarrelExample, plainModuleExample] False
      = \<lparr>pureBarrelFiles = [pureBarrelExample], impureBarrelFiles = [impureBarrelExample],
         unlinked = [''/fixture/modules/index.ts'']\<rparr>"
    using pure impure plain ex1 ex2
    by (simp add: purgeBarrels_def purgeStep_def Let_def) (simp add: pureBarrelExample_def)
  from isPureBarrelFile_partition
    [of emptyModuleExample "[pureBarrelExample, impureBarrelExample, plainModuleExample]" False]
    isPureBarrelFile_partition
    [of impureBarrelExample "[pureBarrelExample, impureBarrelExample, plainModuleExample]" False]
  show ?thesis
    using stmts mem pure impure run by simp
qed

section \<open>The alias resolver\<close>









section \<open>The re-export map: termination\<close>

lemma getSourceFile_Some:
  "getSourceFile P p = Some sf \<Longrightarrow> sf \<in> set (sourceFiles P) \<and> filePath sf = p"
  by (auto simp: getSourceFile_def find_Some_iff)

lemma getSourceFile_canonical:
  "getSourceFile P p = Some sf \<Longrightarrow> getSourceFile P (filePath sf) = Some sf"
  using getSourceFile_Some by fastforce

lemma targetSource_Some:
  "targetSource P sf d = Some t \<Longrightarrow> getSourceFile P (filePath t) = Some t"
  by (auto simp: targetSource_def Let_def getModuleSpecifierSourceFile_def
      split: option.splits if_splits dest: getSourceFile_canonical)

lemma targetSource_in_project:
  "targetSource P sf d = Some t \<Longrightarrow> t \<in> set (sourceFiles P)"
  using targetSource_Some getSourceFile_Some by blast

lemma seen_mono:
  "getReExportMapRecursive n P sf S = Some (m, S') \<Longrightarrow> S \<subseteq> S'"
  "forEachExportDecl n P sf ds m0 S = Some (m, S') \<Longrightarrow> S \<subseteq> S'"
proof (induction n P sf S and n P sf ds m0 S arbitrary: m S' and m S'
    rule: getReExportMapRecursive_forEachExportDecl.induct)
  case (1 P sourceFile seen)
  then show ?case by simp
next
  case (2 n P sourceFile seen)
  then show ?case by (auto split: if_splits)
next
  case (3 n P sourceFile reExportMap seen)
  then show ?case by simp
next
  case (4 n P sourceFile exportDecl rest reExportMap seen)
  show ?case
  proof (cases "targetSource P sourceFile exportDecl")
    case None
    with 4 show ?thesis by simp
  next
    case (Some t)
    show ?thesis
    proof (cases "isNamespaceExport exportDecl")
      case True
      with Some "4.prems" obtain nested S1 where
        a: "getReExportMapRecursive n P t seen = Some (nested, S1)" and
        b: "forEachExportDecl n P sourceFile rest (reExportMap ++ nested) S1 = Some (m, S')"
        by (auto split: option.splits)
      from "4.IH"(2) [OF Some True a] have "seen \<subseteq> S1" .
      moreover from "4.IH"(3) [OF Some True a refl b] have "S1 \<subseteq> S'" .
      ultimately show ?thesis by blast
    next
      case False
      with Some 4 show ?thesis by simp
    qed
  qed
qed


lemma enough_fuel:
  "finite U \<Longrightarrow> filePath ` set (sourceFiles P) \<subseteq> U \<Longrightarrow> filePath sf \<in> U \<Longrightarrow> card (U - S) < n
     \<Longrightarrow> \<exists>r. getReExportMapRecursive n P sf S = Some r"
  "finite U \<Longrightarrow> filePath ` set (sourceFiles P) \<subseteq> U \<Longrightarrow> card (U - S) < n
     \<Longrightarrow> \<exists>r. forEachExportDecl n P sf ds m0 S = Some r"
proof (induction n P sf S and n P sf ds m0 S
    rule: getReExportMapRecursive_forEachExportDecl.induct)
  case (1 P sourceFile seen)
  then show ?case by simp
next
  case (2 n P sourceFile seen)
  note U = "2.prems"(1,2)
  show ?case
  proof (cases "filePath sourceFile \<in> seen")
    case True
    then show ?thesis by simp
  next
    case False
    with "2.prems" have mem: "filePath sourceFile \<in> U - seen" by simp
    have eq: "U - insert (filePath sourceFile) seen = (U - seen) - {filePath sourceFile}" by blast
    have fin: "finite (U - seen)" using U(1) by simp
    have "card (U - insert (filePath sourceFile) seen) = card (U - seen) - 1"
      unfolding eq using mem fin by (simp add: card_Diff_singleton)
    moreover have "card (U - seen) > 0"
      using mem fin card_gt_0_iff by blast
    ultimately have "card (U - insert (filePath sourceFile) seen) < n"
      using "2.prems"(4) by linarith
    from "2.IH" [OF False U this] False show ?thesis by simp
  qed
next
  case (3 n P sourceFile reExportMap seen)
  then show ?case by simp
next
  case (4 n P sourceFile exportDecl rest reExportMap seen)
  note U = "4.prems"(1,2)
  show ?case
  proof (cases "targetSource P sourceFile exportDecl")
    case None
    from "4.IH"(1) [OF None "4.prems"] None show ?thesis by simp
  next
    case (Some t)
    show ?thesis
    proof (cases "isNamespaceExport exportDecl")
      case True
      have "filePath t \<in> U"
        using targetSource_in_project [OF Some] U(2) by blast
      from "4.IH"(2) [OF Some True U this "4.prems"(3)] obtain nested S1 where
        a: "getReExportMapRecursive n P t seen = Some (nested, S1)" by auto
      have "seen \<subseteq> S1" using seen_mono(1) [OF a] .
      then have "U - S1 \<subseteq> U - seen" by blast
      then have "card (U - S1) \<le> card (U - seen)"
        using U(1) by (simp add: card_mono)
      with "4.prems" have "card (U - S1) < n" by simp
      from "4.IH"(3) [OF Some True a refl U this] Some True a show ?thesis by simp
    next
      case False
      from "4.IH"(4) [OF Some False "4.prems"] Some False show ?thesis by simp
    qed
  qed
qed


lemma getReExportMapRecursive_enough:
  "\<exists>m S'. getReExportMapRecursive (depthBound P) P sf {} = Some (m, S')"
proof -
  let ?U = "insert (filePath sf) (filePath ` set (sourceFiles P))"
  have "card ?U \<le> Suc (card (filePath ` set (sourceFiles P)))"
    by (simp add: card_insert_if)
  also have "\<dots> \<le> Suc (length (sourceFiles P))"
    using card_image_le [of "set (sourceFiles P)" filePath] card_length [of "sourceFiles P"]
    by simp
  finally have "card (?U - {}) < depthBound P" by (simp add: depthBound_def)
  moreover have "finite ?U" by simp
  moreover have "filePath ` set (sourceFiles P) \<subseteq> ?U" by blast
  moreover have "filePath sf \<in> ?U" by simp
  ultimately obtain r where "getReExportMapRecursive (depthBound P) P sf {} = Some r"
    using enough_fuel(1) [of ?U P sf "{}" "depthBound P"] by blast
  then show ?thesis by (cases r) simp
qed

lemma fuel_mono:
  "getReExportMapRecursive n P sf S = Some r \<Longrightarrow> n \<le> n' \<Longrightarrow> getReExportMapRecursive n' P sf S = Some r"
  "forEachExportDecl n P sf ds m0 S = Some r \<Longrightarrow> n \<le> n' \<Longrightarrow> forEachExportDecl n' P sf ds m0 S = Some r"
proof (induction n P sf S and n P sf ds m0 S arbitrary: r n' and r n'
    rule: getReExportMapRecursive_forEachExportDecl.induct)
  case (1 P sourceFile seen)
  then show ?case by simp
next
  case (2 n P sourceFile seen)
  from "2.prems"(2) obtain k where k: "n' = Suc k" "n \<le> k" by (cases n') auto
  show ?case
  proof (cases "filePath sourceFile \<in> seen")
    case True
    with "2.prems" k show ?thesis by simp
  next
    case False
    with "2.prems" have "forEachExportDecl n P sourceFile (getExportDeclarations sourceFile) Map.empty
             (insert (filePath sourceFile) seen) = Some r" by simp
    from "2.IH" [OF False this k(2)] False k show ?thesis by simp
  qed
next
  case (3 n P sourceFile reExportMap seen)
  then show ?case by simp
next
  case (4 n P sourceFile exportDecl rest reExportMap seen)
  show ?case
  proof (cases "targetSource P sourceFile exportDecl")
    case None
    with "4.prems" have "forEachExportDecl n P sourceFile rest reExportMap seen = Some r" by simp
    from "4.IH"(1) [OF None this "4.prems"(2)] None show ?thesis by simp
  next
    case (Some t)
    show ?thesis
    proof (cases "isNamespaceExport exportDecl")
      case True
      with Some "4.prems" obtain nested S1 where
        a: "getReExportMapRecursive n P t seen = Some (nested, S1)" and
        b: "forEachExportDecl n P sourceFile rest (reExportMap ++ nested) S1 = Some r"
        by (auto split: option.splits)
      from "4.IH"(2) [OF Some True a "4.prems"(2)]
      have a': "getReExportMapRecursive n' P t seen = Some (nested, S1)" .
      from "4.IH"(3) [OF Some True a refl b "4.prems"(2)]
      have "forEachExportDecl n' P sourceFile rest (reExportMap ++ nested) S1 = Some r" .
      with a' Some True show ?thesis by simp
    next
      case False
      with Some "4.prems" have "forEachExportDecl n P sourceFile rest
                 (fold (setNamedExport (filePath t)) (namedExports exportDecl) reExportMap)
                 seen = Some r" by simp
      from "4.IH"(4) [OF Some False this "4.prems"(2)] Some False show ?thesis by simp
    qed
  qed
qed



section \<open>The re-export map: what it holds\<close>

lemma namespaceTargetsOf_Cons:
  "namespaceTargetsOf P sf (d # ds) =
     (case (if isNamespaceExport d then targetSource P sf d else None) of
        None \<Rightarrow> namespaceTargetsOf P sf ds
      | Some t \<Rightarrow> t # namespaceTargetsOf P sf ds)"
  by (cases "targetSource P sf d") (simp_all add: namespaceTargetsOf_def List.map_filter_simps)

lemma namespaceTargetsOf_Nil [simp]: "namespaceTargetsOf P sf [] = []"
  by (simp add: namespaceTargetsOf_def List.map_filter_simps)

lemma namedEntriesOf_Nil [simp]: "namedEntriesOf P sf [] = []"
  by (simp add: namedEntriesOf_def)

lemma namedEntriesOf_Cons:
  "namedEntriesOf P sf (d # ds) = clauseEntries P sf d @ namedEntriesOf P sf ds"
  by (simp add: namedEntriesOf_def)

lemma namespaceTarget_canonical:
  "t \<in> set (namespaceTargetsOf P m ds) \<Longrightarrow> getSourceFile P (filePath t) = Some t"
  by (auto simp: namespaceTargetsOf_def List.map_filter_def split: if_splits
      dest: targetSource_Some)

lemma canonical_eq:
  "getSourceFile P (filePath x) = Some x \<Longrightarrow> getSourceFile P (filePath y) = Some y
     \<Longrightarrow> filePath x = filePath y \<Longrightarrow> x = y"
  by (metis option.inject)

lemma reaches_outside:
  "reachesAvoiding P S r x \<Longrightarrow> filePath r \<notin> S \<and> filePath x \<notin> S"
  by (induction rule: reachesAvoiding.induct) auto

lemma reaches_canonical:
  "reachesAvoiding P S r x \<Longrightarrow> getSourceFile P (filePath r) = Some r
     \<Longrightarrow> getSourceFile P (filePath x) = Some x"
  by (induction rule: reachesAvoiding.induct)
     (auto simp: namespaceTargets_def dest: namespaceTarget_canonical)

lemma reaches_mono:
  "reachesAvoiding P S' r x \<Longrightarrow> S \<subseteq> S' \<Longrightarrow> reachesAvoiding P S r x"
  by (induction rule: reachesAvoiding.induct) (auto intro: reachesAvoiding.intros)

lemma reaches_trans:
  "reachesAvoiding P S m x \<Longrightarrow> reachesAvoiding P S r m \<Longrightarrow> reachesAvoiding P S r x"
  by (induction rule: reachesAvoiding.induct) (auto intro: reachesAvoiding.intros)

lemma dfs_step:
  assumes S1: "S1 = S0 \<union> filePath ` {x. reachesAvoiding P S0 t x}"
    and ct: "getSourceFile P (filePath t) = Some t"
    and ct': "getSourceFile P (filePath t') = Some t'"
    and r: "reachesAvoiding P S0 t' x"
  shows "reachesAvoiding P S0 t x \<or> reachesAvoiding P S1 t' x"
  using r
proof (induction rule: reachesAvoiding.induct)
  case start
  show ?case
  proof (cases "filePath t' \<in> S1")
    case True
    with start S1 obtain y where y: "reachesAvoiding P S0 t y" "filePath y = filePath t'"
      by auto
    from reaches_canonical [OF y(1) ct] ct' y(2) have "y = t'" by (metis option.inject)
    with y show ?thesis by simp
  next
    case False
    then show ?thesis by (simp add: reachesAvoiding.start)
  qed
next
  case (step m x)
  have cx: "getSourceFile P (filePath x) = Some x"
    using step.hyps(2) by (auto simp: namespaceTargets_def dest: namespaceTarget_canonical)
  from step.IH show ?case
  proof
    assume "reachesAvoiding P S0 t m"
    then show ?thesis using step.hyps by (auto intro: reachesAvoiding.step)
  next
    assume m: "reachesAvoiding P S1 t' m"
    show ?thesis
    proof (cases "filePath x \<in> S1")
      case True
      with step.hyps(3) S1 obtain y where y: "reachesAvoiding P S0 t y" "filePath y = filePath x"
        by auto
      from reaches_canonical [OF y(1) ct] cx y(2) have "y = x" by (metis option.inject)
      with y show ?thesis by simp
    next
      case False
      with m step.hyps(2) show ?thesis by (auto intro: reachesAvoiding.step)
    qed
  qed
qed

lemma dfs_union:
  assumes S1: "S1 = S0 \<union> filePath ` {x. reachesAvoiding P S0 t x}"
    and ct: "getSourceFile P (filePath t) = Some t"
    and ct': "getSourceFile P (filePath t') = Some t'"
  shows "{x. reachesAvoiding P S0 t x} \<union> {x. reachesAvoiding P S1 t' x}
       = {x. reachesAvoiding P S0 t x} \<union> {x. reachesAvoiding P S0 t' x}"
proof -
  have "S0 \<subseteq> S1" using S1 by blast
  then have "\<And>x. reachesAvoiding P S1 t' x \<Longrightarrow> reachesAvoiding P S0 t' x"
    using reaches_mono by blast
  moreover have "\<And>x. reachesAvoiding P S0 t' x \<Longrightarrow> reachesAvoiding P S0 t x \<or> reachesAvoiding P S1 t' x"
    using dfs_step [OF S1 ct ct'] by blast
  ultimately show ?thesis by blast
qed

lemma root_unfold:
  assumes c: "getSourceFile P (filePath sf) = Some sf" and out: "filePath sf \<notin> S"
  shows "{x. reachesAvoiding P S sf x}
       = insert sf (\<Union>t \<in> set (namespaceTargets P sf). {x. reachesAvoiding P (insert (filePath sf) S) t x})"
proof (intro equalityI subsetI)
  fix x assume "x \<in> {x. reachesAvoiding P S sf x}"
  then have "reachesAvoiding P S sf x" by simp
  then show "x \<in> insert sf (\<Union>t \<in> set (namespaceTargets P sf). {x. reachesAvoiding P (insert (filePath sf) S) t x})"
  proof (induction rule: reachesAvoiding.induct)
    case start
    then show ?case by simp
  next
    case (step m x)
    have cx: "getSourceFile P (filePath x) = Some x"
      using step.hyps(2) by (auto simp: namespaceTargets_def dest: namespaceTarget_canonical)
    show ?case
    proof (cases "filePath x = filePath sf")
      case True
      with c cx have "x = sf" by (metis option.inject)
      then show ?thesis by simp
    next
      case False
      with step.hyps(3) have nx: "filePath x \<notin> insert (filePath sf) S" by simp
      from step.IH show ?thesis
      proof (elim insertE)
        assume "m = sf"
        with step.hyps(2) nx show ?thesis
          by (auto intro: reachesAvoiding.start)
      next
        assume "m \<in> (\<Union>t \<in> set (namespaceTargets P sf). {x. reachesAvoiding P (insert (filePath sf) S) t x})"
        then obtain t where "t \<in> set (namespaceTargets P sf)"
          "reachesAvoiding P (insert (filePath sf) S) t m" by auto
        with step.hyps(2) nx show ?thesis
          by (auto intro: reachesAvoiding.step)
      qed
    qed
  qed
next
  fix x assume "x \<in> insert sf (\<Union>t \<in> set (namespaceTargets P sf). {x. reachesAvoiding P (insert (filePath sf) S) t x})"
  then show "x \<in> {x. reachesAvoiding P S sf x}"
  proof (elim insertE)
    assume "x = sf"
    with out show ?thesis by (simp add: reachesAvoiding.start)
  next
    assume "x \<in> (\<Union>t \<in> set (namespaceTargets P sf). {x. reachesAvoiding P (insert (filePath sf) S) t x})"
    then obtain t where t: "t \<in> set (namespaceTargets P sf)"
      "reachesAvoiding P (insert (filePath sf) S) t x" by auto
    from reaches_outside [OF t(2)] have "filePath t \<notin> S" by simp
    with t(1) out have "reachesAvoiding P S sf t"
      by (auto intro: reachesAvoiding.intros)
    moreover from t(2) have "reachesAvoiding P S t x"
      by (rule reaches_mono) blast
    ultimately show ?thesis using reaches_trans by blast
  qed
qed

lemma dom_fold_setNamedExport:
  "dom (fold (setNamedExport p) specs m) = dom m \<union> exportedNameOf ` set specs"
  by (induction specs arbitrary: m) (auto simp: setNamedExport_def)



lemma dfs_invariant:
  "getReExportMapRecursive n P sf S = Some (m, S') \<Longrightarrow> getSourceFile P (filePath sf) = Some sf
     \<Longrightarrow> S' = S \<union> filePath ` {x. reachesAvoiding P S sf x}
       \<and> dom m = (\<Union>x \<in> {x. reachesAvoiding P S sf x}. fst ` set (namedEntries P x))"
  "forEachExportDecl n P sf ds m0 S = Some (m, S')
     \<Longrightarrow> S' = S \<union> filePath ` (\<Union>t \<in> set (namespaceTargetsOf P sf ds). {x. reachesAvoiding P S t x})
       \<and> dom m = dom m0 \<union> fst ` set (namedEntriesOf P sf ds)
           \<union> (\<Union>x \<in> (\<Union>t \<in> set (namespaceTargetsOf P sf ds). {x. reachesAvoiding P S t x}).
                 fst ` set (namedEntries P x))"
proof (induction n P sf S and n P sf ds m0 S arbitrary: m S' and m S'
    rule: getReExportMapRecursive_forEachExportDecl.induct)
  case (1 P sourceFile seen)
  then show ?case by simp
next
  case (2 n P sourceFile seen)
  show ?case
  proof (cases "filePath sourceFile \<in> seen")
    case True
    then have "{x. reachesAvoiding P seen sourceFile x} = {}"
      using reaches_outside by blast
    with True "2.prems"(1) show ?thesis by auto
  next
    case False
    with "2.prems"(1) have run: "forEachExportDecl n P sourceFile (getExportDeclarations sourceFile)
        Map.empty (insert (filePath sourceFile) seen) = Some (m, S')" by simp
    note ih = "2.IH" [OF False run]
    note ru = root_unfold [OF "2.prems"(2) False]
    have nt: "namespaceTargetsOf P sourceFile (getExportDeclarations sourceFile)
        = namespaceTargets P sourceFile" by (simp add: namespaceTargets_def)
    have ne: "namedEntriesOf P sourceFile (getExportDeclarations sourceFile)
        = namedEntries P sourceFile" by (simp add: namedEntries_def)
    note 1 = ih [THEN conjunct1, unfolded nt]
    note 2 = ih [THEN conjunct2, unfolded nt ne]
    show ?thesis
      unfolding ru 1 2 by blast
  qed
next
  case (3 n P sourceFile reExportMap seen)
  then show ?case by simp
next
  case (4 n P sourceFile exportDecl rest reExportMap seen)
  show ?case
  proof (cases "targetSource P sourceFile exportDecl")
    case None
    with "4.prems" have run: "forEachExportDecl n P sourceFile rest reExportMap seen = Some (m, S')"
      by simp
    have a: "namespaceTargetsOf P sourceFile (exportDecl # rest) = namespaceTargetsOf P sourceFile rest"
      using None by (simp add: namespaceTargetsOf_Cons)
    have b: "namedEntriesOf P sourceFile (exportDecl # rest) = namedEntriesOf P sourceFile rest"
      using None by (simp add: namedEntriesOf_Cons clauseEntries_def)
    from "4.IH"(1) [OF None run] show ?thesis unfolding a b .
  next
    case (Some t)
    have ct: "getSourceFile P (filePath t) = Some t" using targetSource_Some [OF Some] .
    show ?thesis
    proof (cases "isNamespaceExport exportDecl")
      case True
      with Some "4.prems" obtain nested S1 where
        r1: "getReExportMapRecursive n P t seen = Some (nested, S1)" and
        r2: "forEachExportDecl n P sourceFile rest (reExportMap ++ nested) S1 = Some (m, S')"
        by (auto split: option.splits)
      have a: "namespaceTargetsOf P sourceFile (exportDecl # rest) = t # namespaceTargetsOf P sourceFile rest"
        using Some True by (simp add: namespaceTargetsOf_Cons)
      have b: "namedEntriesOf P sourceFile (exportDecl # rest) = namedEntriesOf P sourceFile rest"
        using Some True by (simp add: namedEntriesOf_Cons clauseEntries_def)
      note s1 = "4.IH"(2) [OF Some True r1 ct, THEN conjunct1]
      note d1 = "4.IH"(2) [OF Some True r1 ct, THEN conjunct2]
      note s2 = "4.IH"(3) [OF Some True r1 refl r2, THEN conjunct1]
      note d2 = "4.IH"(3) [OF Some True r1 refl r2, THEN conjunct2]
      have u: "{x. reachesAvoiding P seen t x} \<union> (\<Union>t' \<in> set (namespaceTargetsOf P sourceFile rest). {x. reachesAvoiding P S1 t' x})
          = {x. reachesAvoiding P seen t x} \<union> (\<Union>t' \<in> set (namespaceTargetsOf P sourceFile rest). {x. reachesAvoiding P seen t' x})"
      proof -
        have "\<And>t'. t' \<in> set (namespaceTargetsOf P sourceFile rest) \<Longrightarrow>
            {x. reachesAvoiding P seen t x} \<union> {x. reachesAvoiding P S1 t' x}
          = {x. reachesAvoiding P seen t x} \<union> {x. reachesAvoiding P seen t' x}"
          using dfs_union [OF s1 ct] namespaceTarget_canonical by blast
        then show ?thesis by blast
      qed
      let ?A = "{x. reachesAvoiding P seen t x}"
      let ?B1 = "(\<Union>t' \<in> set (namespaceTargetsOf P sourceFile rest). {x. reachesAvoiding P S1 t' x})"
      let ?B0 = "(\<Union>t' \<in> set (namespaceTargetsOf P sourceFile rest). {x. reachesAvoiding P seen t' x})"
      have S: "S' = seen \<union> filePath ` (?A \<union> ?B0)"
      proof -
        have "S' = seen \<union> filePath ` (?A \<union> ?B1)" unfolding s2 s1 by blast
        then show ?thesis unfolding u .
      qed
      have D: "dom m = dom reExportMap \<union> fst ` set (namedEntriesOf P sourceFile rest)
           \<union> (\<Union>x \<in> ?A \<union> ?B0. fst ` set (namedEntries P x))"
      proof -
        have "dom m = dom reExportMap \<union> fst ` set (namedEntriesOf P sourceFile rest)
           \<union> (\<Union>x \<in> ?A \<union> ?B1. fst ` set (namedEntries P x))"
          unfolding d2 dom_map_add d1 by blast
        then show ?thesis unfolding u .
      qed
      show ?thesis unfolding a b using S D by simp
    next
      case False
      with Some "4.prems" have run: "forEachExportDecl n P sourceFile rest
                 (fold (setNamedExport (filePath t)) (namedExports exportDecl) reExportMap)
                 seen = Some (m, S')" by simp
      have a: "namespaceTargetsOf P sourceFile (exportDecl # rest) = namespaceTargetsOf P sourceFile rest"
        using False by (simp add: namespaceTargetsOf_Cons)
      have b: "fst ` set (namedEntriesOf P sourceFile (exportDecl # rest))
          = exportedNameOf ` set (namedExports exportDecl) \<union> fst ` set (namedEntriesOf P sourceFile rest)"
        using Some False by (force simp: namedEntriesOf_Cons clauseEntries_def)
      from "4.IH"(4) [OF Some False run] show ?thesis
        unfolding a b dom_fold_setNamedExport by blast
    qed
  qed
qed


section \<open>The re-export map: the claims\<close>



lemma reExportMapOf_run:
  "\<exists>S'. getReExportMapRecursive (depthBound P) P sf {} = Some (reExportMapOf P sf, S')"
  using getReExportMapRecursive_enough [of P sf] by (auto simp: reExportMapOf_def)





lemma reExportMapOf_dom:
  assumes "getSourceFile P (filePath sf) = Some sf"
  shows "dom (reExportMapOf P sf) = (\<Union>x \<in> reachable P sf. fst ` set (namedEntries P x))"
proof -
  from reExportMapOf_run obtain S' where
    "getReExportMapRecursive (depthBound P) P sf {} = Some (reExportMapOf P sf, S')" by blast
  from dfs_invariant(1) [OF this assms, THEN conjunct2] show ?thesis
    unfolding reachable_def .
qed

lemma reachable_cycle:
  assumes "b \<in> reachable P a" "a \<in> reachable P b"
  shows "reachable P a = reachable P b"
  using assms reaches_trans unfolding reachable_def by blast

text \<open>
  Claim C3. The builder returns on every re-export graph: at depth
  \<open>depthBound P\<close> and at every greater depth it returns one and the same map.
  A module that is already in \<open>seen\<close> (which holds the modules of the current
  call chain) yields the empty map and no error. For a module of the project the
  names of the map are exactly the exported names of the named re-export clauses
  of the modules reachable from it along namespace re-exports; so two modules on
  a cycle of namespace re-exports get maps with the same names.
\<close>

theorem getReExportMapRecursive_terminates:
  "(\<exists>m S'. \<forall>n \<ge> depthBound P. getReExportMapRecursive n P sf {} = Some (m, S'))
   \<and> (filePath sf \<in> seen \<longrightarrow> getReExportMapRecursive (Suc n) P sf seen = Some (Map.empty, seen))
   \<and> (getSourceFile P (filePath sf) = Some sf \<longrightarrow>
        dom (reExportMapOf P sf) = (\<Union>x \<in> reachable P sf. fst ` set (namedEntries P x)))
   \<and> (getSourceFile P (filePath sf) = Some sf \<and> getSourceFile P (filePath sf') = Some sf'
        \<and> sf' \<in> reachable P sf \<and> sf \<in> reachable P sf' \<longrightarrow>
        dom (reExportMapOf P sf) = dom (reExportMapOf P sf'))"
proof (intro conjI impI)
  from getReExportMapRecursive_enough [of P sf] obtain m S' where
    r: "getReExportMapRecursive (depthBound P) P sf {} = Some (m, S')" by blast
  have "\<forall>n \<ge> depthBound P. getReExportMapRecursive n P sf {} = Some (m, S')"
    using fuel_mono(1) [OF r] by blast
  then show "\<exists>m S'. \<forall>n \<ge> depthBound P. getReExportMapRecursive n P sf {} = Some (m, S')"
    by blast
next
  assume "filePath sf \<in> seen"
  then show "getReExportMapRecursive (Suc n) P sf seen = Some (Map.empty, seen)" by simp
next
  assume "getSourceFile P (filePath sf) = Some sf"
  then show "dom (reExportMapOf P sf) = (\<Union>x \<in> reachable P sf. fst ` set (namedEntries P x))"
    by (rule reExportMapOf_dom)
next
  assume a: "getSourceFile P (filePath sf) = Some sf \<and> getSourceFile P (filePath sf') = Some sf'
        \<and> sf' \<in> reachable P sf \<and> sf \<in> reachable P sf'"
  then have "reachable P sf = reachable P sf'" using reachable_cycle by blast
  with a show "dom (reExportMapOf P sf) = dom (reExportMapOf P sf')"
    by (simp add: reExportMapOf_dom)
qed


theorem getReExportMapRecursive_terminates_witness:
  "filePath cycleA \<in> {filePath cycleA}
   \<and> getReExportMapRecursive (Suc 0) cycleProject cycleA {filePath cycleA}
       = Some (Map.empty, {filePath cycleA})
   \<and> getSourceFile cycleProject (filePath cycleA) = Some cycleA
   \<and> getSourceFile cycleProject (filePath cycleB) = Some cycleB
   \<and> cycleB \<in> reachable cycleProject cycleA \<and> cycleA \<in> reachable cycleProject cycleB
   \<and> dom (reExportMapOf cycleProject cycleA) = dom (reExportMapOf cycleProject cycleB)
   \<and> (\<Union>x \<in> reachable cycleProject cycleA. fst ` set (namedEntries cycleProject x))
       = {''alpha'', ''b2''}"
proof -
  have cA: "getSourceFile cycleProject (filePath cycleA) = Some cycleA"
    by (simp add: cycle_defs example_defs project_defs)
  have cB: "getSourceFile cycleProject (filePath cycleB) = Some cycleB"
    by (simp add: cycle_defs example_defs project_defs)
  have tA: "namespaceTargets cycleProject cycleA = [cycleB]"
    by (simp add: namespaceTargets_def namespaceTargetsOf_def List.map_filter_def
        cycle_defs example_defs project_defs startsWith_def)
  have tB: "namespaceTargets cycleProject cycleB = [cycleA]"
    by (simp add: namespaceTargets_def namespaceTargetsOf_def List.map_filter_def
        cycle_defs example_defs project_defs startsWith_def)
  have "reachesAvoiding cycleProject {} cycleA cycleA"
    by (rule reachesAvoiding.start) simp
  then have "reachesAvoiding cycleProject {} cycleA cycleB"
    by (rule reachesAvoiding.step) (simp_all add: tA)
  then have rA: "cycleB \<in> reachable cycleProject cycleA"
    by (simp add: reachable_def)
  have "reachesAvoiding cycleProject {} cycleB cycleB"
    by (rule reachesAvoiding.start) simp
  then have "reachesAvoiding cycleProject {} cycleB cycleA"
    by (rule reachesAvoiding.step) (simp_all add: tB)
  then have rB: "cycleA \<in> reachable cycleProject cycleB"
    by (simp add: reachable_def)
  have dA: "dom (reExportMapOf cycleProject cycleA) = {''alpha'', ''b2''}"
    by (simp add: cycle_defs example_defs project_defs startsWith_def)
  have mem: "filePath cycleA \<in> {filePath cycleA}" by simp
  note t = getReExportMapRecursive_terminates
    [of cycleProject cycleA "{filePath cycleA}" 0 cycleB]
  from t mem have 1: "getReExportMapRecursive (Suc 0) cycleProject cycleA {filePath cycleA}
       = Some (Map.empty, {filePath cycleA})" by blast
  from t cA cB rA rB have 2:
    "dom (reExportMapOf cycleProject cycleA) = dom (reExportMapOf cycleProject cycleB)" by blast
  from t cA have "dom (reExportMapOf cycleProject cycleA)
      = (\<Union>x \<in> reachable cycleProject cycleA. fst ` set (namedEntries cycleProject x))" by blast
  with dA have 3: "(\<Union>x \<in> reachable cycleProject cycleA. fst ` set (namedEntries cycleProject x))
       = {''alpha'', ''b2''}" by simp
  from mem 1 cA cB rA rB 2 3 show ?thesis by blast
qed

section \<open>The rewrite of a file, declaration by declaration\<close>

lemma resolveSpecifier_filePath:
  "filePath sf1 = filePath sf2 \<Longrightarrow> resolveSpecifier P paths sf1 h = resolveSpecifier P paths sf2 h"
  by (simp add: resolveSpecifier_def cong: sum.case_cong)

lemma processDefault_filePath:
  "filePath sf1 = filePath sf2 \<Longrightarrow>
   processDefault P paths sf1 t ms d = processDefault P paths sf2 t ms d"
  by (simp add: processDefault_def resolveSpecifier_filePath [of sf1 sf2] Let_def
      cong: sum.case_cong option.case_cong if_cong)

lemma processNamed_filePath:
  "filePath sf1 = filePath sf2 \<Longrightarrow>
   processNamed P paths sf1 t ms m n st = processNamed P paths sf2 t ms m n st"
  by (simp add: processNamed_def resolveSpecifier_filePath [of sf1 sf2] Let_def
      cong: sum.case_cong option.case_cong if_cong)

lemma forEachNamedImport_filePath:
  "filePath sf1 = filePath sf2 \<Longrightarrow>
   forEachNamedImport P paths sf1 t ms m ns st = forEachNamedImport P paths sf2 t ms m ns st"
  by (induction ns arbitrary: st)
     (simp_all add: processNamed_filePath [of sf1 sf2] cong: sum.case_cong)

lemma collectBindings_filePath:
  "filePath sf1 = filePath sf2 \<Longrightarrow>
   collectBindings P paths sf1 t ms m d = collectBindings P paths sf2 t ms m d"
  by (simp add: collectBindings_def processDefault_filePath [of sf1 sf2]
      forEachNamedImport_filePath [of sf1 sf2] cong: sum.case_cong)



lemma forEachRewritten_append:
  "forEachRewritten (xs @ ys) st =
     (case forEachRewritten xs st of Inl e \<Rightarrow> Inl e | Inr st' \<Rightarrow> forEachRewritten ys st')"
  by (induction xs arbitrary: st) (simp_all split: sum.splits)

lemma rewriteStep_outcome:
  assumes fp: "filePath (currentFile st) = filePath sf"
  shows "rewriteStep P ap paths sf d st =
     (case importOutcome P ap paths sf d of
        Inl e \<Rightarrow> Inl e
      | Inr None \<Rightarrow> Inr st
      | Inr (Some ps) \<Rightarrow>
          if changed ps then
            (case forEachRewritten (rewrittenBySpecifier ps) (prototypeDefault st, importGroups st) of
               Inl e \<Rightarrow> Inl e
             | Inr (flag, groups) \<Rightarrow>
                 Inr (st\<lparr>importGroups := groups,
                         prototypeDefault := flag,
                         importsToRemove := importsToRemove st @ [d],
                         fileChanged := True,
                         currentFile := (if keptNamed ps \<noteq> []
                            then addImportDeclaration (currentFile st)
                                   (residualImport (importSpecifier d) (keptNamed ps))
                            else currentFile st)\<rparr>))
          else Inr st)"
proof (cases "barrelTarget P ap sf d")
  case None
  then show ?thesis by (simp add: rewriteStep_def importOutcome_def)
next
  case (Some t)
  note cb = collectBindings_filePath [OF fp, of P paths t "importSpecifier d" "reExportMapOf P t" d]
  show ?thesis
  proof (cases "collectBindings P paths sf t (importSpecifier d) (reExportMapOf P t) d")
    case (Inl e)
    with Some cb show ?thesis
      by (simp add: rewriteStep_def importOutcome_def processImportDeclaration_def)
  next
    case (Inr ps)
    with Some cb show ?thesis
      by (simp add: rewriteStep_def importOutcome_def processImportDeclaration_def
          split: sum.splits)
  qed
qed


lemma addImportDeclaration_filePath [simp]:
  "filePath (addImportDeclaration sf d) = filePath sf"
  by (simp add: addImportDeclaration_def)

lemma forEachImportDecl_eq:
  "filePath (currentFile st) = filePath sf \<Longrightarrow>
   \<forall>d \<in> set ds. \<exists>out. importOutcome P ap paths sf d = Inr out \<Longrightarrow>
   forEachRewritten (concat (map (rewrittenOf P ap paths sf) ds))
       (prototypeDefault st, importGroups st) = Inr (flag, groups) \<Longrightarrow>
   forEachImportDecl P ap paths sf ds st =
     Inr (st\<lparr>importGroups := groups,
             prototypeDefault := flag,
             importsToRemove := importsToRemove st @ filter (isRewritten P ap paths sf) ds,
             fileChanged := (fileChanged st \<or> (\<exists>d \<in> set ds. isRewritten P ap paths sf d)),
             currentFile := (currentFile st)\<lparr>importDeclarations :=
               importDeclarations (currentFile st)
               @ concat (map (residualsOf P ap paths sf) ds)\<rparr>\<rparr>)"
proof (induction ds arbitrary: st)
  case Nil
  then show ?case by simp
next
  case (Cons d ds)
  from Cons.prems(2) obtain out where out: "importOutcome P ap paths sf d = Inr out" by auto
  have rest: "\<forall>d \<in> set ds. \<exists>out. importOutcome P ap paths sf d = Inr out"
    using Cons.prems(2) by simp
  have quiet: ?case
    if step: "rewriteStep P ap paths sf d st = Inr st"
      and a: "rewrittenOf P ap paths sf d = []" "\<not> isRewritten P ap paths sf d"
        "residualsOf P ap paths sf d = []"
  proof -
    from Cons.prems(3) a(1)
    have m: "forEachRewritten (concat (map (rewrittenOf P ap paths sf) ds))
       (prototypeDefault st, importGroups st) = Inr (flag, groups)" by simp
    show ?thesis
      using step Cons.IH [OF Cons.prems(1) rest m] a by simp
  qed
  show ?case
  proof (cases out)
    case None
    with out have step: "rewriteStep P ap paths sf d st = Inr st"
      by (simp add: rewriteStep_outcome [OF Cons.prems(1)])
    from out None have a: "rewrittenOf P ap paths sf d = []" "\<not> isRewritten P ap paths sf d"
      "residualsOf P ap paths sf d = []"
      by (simp_all add: rewrittenOf_def isRewritten_def residualsOf_def)
    from quiet [OF step a] show ?thesis .
  next
    case (Some ps)
    show ?thesis
    proof (cases "changed ps")
      case False
      with out Some have step: "rewriteStep P ap paths sf d st = Inr st"
        by (simp add: rewriteStep_outcome [OF Cons.prems(1)])
      from out Some False have a: "rewrittenOf P ap paths sf d = []" "\<not> isRewritten P ap paths sf d"
        "residualsOf P ap paths sf d = []"
        by (simp_all add: rewrittenOf_def isRewritten_def residualsOf_def)
      from quiet [OF step a] show ?thesis .
    next
      case True
      from out Some True have a: "rewrittenOf P ap paths sf d = rewrittenBySpecifier ps"
        "isRewritten P ap paths sf d"
        "residualsOf P ap paths sf d = (if keptNamed ps \<noteq> []
            then [residualImport (importSpecifier d) (keptNamed ps)] else [])"
        by (simp_all add: rewrittenOf_def isRewritten_def residualsOf_def)
      from Cons.prems(3) a(1) obtain flag1 groups1 where
        m1: "forEachRewritten (rewrittenBySpecifier ps) (prototypeDefault st, importGroups st)
              = Inr (flag1, groups1)"
        and m2: "forEachRewritten (concat (map (rewrittenOf P ap paths sf) ds)) (flag1, groups1)
              = Inr (flag, groups)"
        by (auto simp: forEachRewritten_append split: sum.splits)
      define st1 where "st1 = st\<lparr>importGroups := groups1,
                    prototypeDefault := flag1,
                    importsToRemove := importsToRemove st @ [d],
                    fileChanged := True,
                    currentFile := (if keptNamed ps \<noteq> []
                       then addImportDeclaration (currentFile st)
                              (residualImport (importSpecifier d) (keptNamed ps))
                       else currentFile st)\<rparr>"
      from out Some True m1 have step: "rewriteStep P ap paths sf d st = Inr st1"
        by (simp add: rewriteStep_outcome [OF Cons.prems(1)] st1_def)
      have fp1: "filePath (currentFile st1) = filePath sf"
        using Cons.prems(1) by (simp add: st1_def)
      have m2': "forEachRewritten (concat (map (rewrittenOf P ap paths sf) ds))
          (prototypeDefault st1, importGroups st1) = Inr (flag, groups)"
        using m2 by (simp add: st1_def)
      show ?thesis
        using step Cons.IH [OF fp1 rest m2'] a
        by (simp add: st1_def addImportDeclaration_def)
    qed
  qed
qed

lemma forEachImportDecl_Inr_outcomes:
  "forEachImportDecl P ap paths sf ds st = Inr st' \<Longrightarrow> filePath (currentFile st) = filePath sf
    \<Longrightarrow> (\<forall>d \<in> set ds. \<exists>out. importOutcome P ap paths sf d = Inr out)
      \<and> forEachRewritten (concat (map (rewrittenOf P ap paths sf) ds))
            (prototypeDefault st, importGroups st) = Inr (prototypeDefault st', importGroups st')"
proof (induction ds arbitrary: st)
  case Nil
  then show ?case by simp
next
  case (Cons d ds)
  from Cons.prems(1) obtain st1 where step: "rewriteStep P ap paths sf d st = Inr st1"
    and rest: "forEachImportDecl P ap paths sf ds st1 = Inr st'"
    by (auto split: sum.splits)
  from step obtain out where out: "importOutcome P ap paths sf d = Inr out"
    unfolding rewriteStep_outcome [OF Cons.prems(2)]
    by (cases "importOutcome P ap paths sf d") auto
  from step have fp1: "filePath (currentFile st1) = filePath sf"
    unfolding rewriteStep_outcome [OF Cons.prems(2)]
    using Cons.prems(2)
    by (auto split: sum.splits option.splits if_splits)
  note ih = Cons.IH [OF rest fp1]
  have m: "forEachRewritten (rewrittenOf P ap paths sf d) (prototypeDefault st, importGroups st)
      = Inr (prototypeDefault st1, importGroups st1)"
    using step out unfolding rewriteStep_outcome [OF Cons.prems(2)]
    by (auto simp: rewrittenOf_def split: sum.splits option.splits if_splits)
  from ih m out show ?case
    by (simp add: forEachRewritten_append)
qed

lemma fold_addImportDeclaration:
  "fold (\<lambda>g sf. addImportDeclaration sf (groupedImport g)) gs sf0
     = sf0\<lparr>importDeclarations := importDeclarations sf0 @ map groupedImport gs\<rparr>"
  by (induction gs arbitrary: sf0) (simp_all add: addImportDeclaration_def)

lemma filter_not_rewritten:
  "filter (\<lambda>d. d \<notin> set (filter Q ds)) ds = filter (\<lambda>d. \<not> Q d) ds"
  by (rule filter_cong) auto


lemma rewriteImportsInFile_eq:
  assumes "\<forall>d \<in> set (importDeclarations sf). \<exists>out. importOutcome P ap paths sf d = Inr out"
    and "mergedGroups flag P ap paths sf = Inr (flag', groups)"
  shows "rewriteImportsInFile flag P ap paths dry sf =
     Inr \<lparr>rewrittenFile = sf\<lparr>importDeclarations :=
              filter (\<lambda>d. \<not> isRewritten P ap paths sf d) (importDeclarations sf)
              @ concat (map (residualsOf P ap paths sf) (importDeclarations sf))
              @ emittedImports flag P ap paths sf\<rparr>,
          hasChanged = (\<exists>d \<in> set (importDeclarations sf). isRewritten P ap paths sf d),
          saved = ((\<exists>d \<in> set (importDeclarations sf). isRewritten P ap paths sf d) \<and> \<not> dry),
          prototypeDefaultAfter = flag'\<rparr>"
proof -
  let ?st0 = "\<lparr>importGroups = [], prototypeDefault = flag, importsToRemove = [],
               fileChanged = False, currentFile = sf\<rparr>"
  have fp: "filePath (currentFile ?st0) = filePath sf" by simp
  have m: "forEachRewritten (concat (map (rewrittenOf P ap paths sf) (importDeclarations sf)))
       (prototypeDefault ?st0, importGroups ?st0) = Inr (flag', groups)"
    using assms(2) by (simp add: mergedGroups_def rewrittenStream_def)
  have flt: "filter (\<lambda>d. d \<in> set (importDeclarations sf) \<longrightarrow> \<not> isRewritten P ap paths sf d)
           (importDeclarations sf)
      = filter (\<lambda>d. \<not> isRewritten P ap paths sf d) (importDeclarations sf)"
    by (rule filter_cong) auto
  show ?thesis
    unfolding rewriteImportsInFile_def forEachImportDecl_eq [OF fp assms(1) m]
    by (simp add: Let_def removeImports_def fold_addImportDeclaration flt
        emittedImports_def assms(2))
qed

lemma rewriteImportsInFile_outcomes:
  assumes "rewriteImportsInFile flag P ap paths dry sf = Inr r"
  shows "\<forall>d \<in> set (importDeclarations sf). \<exists>out. importOutcome P ap paths sf d = Inr out"
proof -
  let ?st0 = "\<lparr>importGroups = [], prototypeDefault = flag, importsToRemove = [],
               fileChanged = False, currentFile = sf\<rparr>"
  from assms obtain st where
    "forEachImportDecl P ap paths sf (importDeclarations sf) ?st0 = Inr st"
    by (auto simp: rewriteImportsInFile_def split: sum.splits)
  from forEachImportDecl_Inr_outcomes [OF this] show ?thesis by simp
qed

lemma rewriteImportsInFile_merged:
  assumes "rewriteImportsInFile flag P ap paths dry sf = Inr r"
  shows "\<exists>groups. mergedGroups flag P ap paths sf = Inr (prototypeDefaultAfter r, groups)"
proof -
  let ?st0 = "\<lparr>importGroups = [], prototypeDefault = flag, importsToRemove = [],
               fileChanged = False, currentFile = sf\<rparr>"
  from assms obtain st where st: "forEachImportDecl P ap paths sf (importDeclarations sf) ?st0 = Inr st"
    and r: "prototypeDefaultAfter r = prototypeDefault st"
    by (auto simp: rewriteImportsInFile_def Let_def split: sum.splits)
  from forEachImportDecl_Inr_outcomes [OF st] r show ?thesis
    by (simp add: mergedGroups_def rewrittenStream_def)
qed

lemma rewriteImportsInFile_imports:
  assumes "rewriteImportsInFile flag P ap paths dry sf = Inr r"
  shows "importDeclarations (rewrittenFile r) =
              filter (\<lambda>d. \<not> isRewritten P ap paths sf d) (importDeclarations sf)
              @ concat (map (residualsOf P ap paths sf) (importDeclarations sf))
              @ emittedImports flag P ap paths sf"
proof -
  from rewriteImportsInFile_merged [OF assms] obtain flag' groups where
    m: "mergedGroups flag P ap paths sf = Inr (flag', groups)" by blast
  note eq = rewriteImportsInFile_eq [OF rewriteImportsInFile_outcomes [OF assms] m, of dry]
  from assms have e: "r = projr (rewriteImportsInFile flag P ap paths dry sf)" by simp
  show ?thesis unfolding e eq by simp
qed



section \<open>Barrel candidates\<close>

lemma exportDeclarationsOf_nonempty_iff:
  "exportDeclarationsOf ss \<noteq> [] \<longleftrightarrow> (\<exists>s \<in> set ss. \<exists>e. s = ExportDeclaration e)"
  by (induction ss rule: exportDeclarationsOf.induct) auto

lemma barrelTarget_None_not_rewritten:
  "barrelTarget P ap sf d = None \<Longrightarrow> \<not> isRewritten P ap paths sf d"
  by (simp add: isRewritten_def importOutcome_def)

lemma not_rewritten_stays:
  assumes "rewriteImportsInFile flag P ap paths dry sf = Inr r"
    and "d \<in> set (importDeclarations sf)" and "\<not> isRewritten P ap paths sf d"
  shows "d \<in> set (importDeclarations (rewrittenFile r))"
  using assms(2,3) unfolding rewriteImportsInFile_imports [OF assms(1)] by simp


text \<open>
  Claim C5, amended. A local import whose specifier resolves is a barrel
  candidate exactly when the module it names holds at least one export
  declaration, with or without a module specifier; an import that is no
  candidate (also one whose module holds no export declaration) is still among
  the import declarations of the rewritten file.
\<close>

theorem barrel_candidate_iff_export_declaration:
  "(isLocalImport ap (importSpecifier d)
      \<and> getModuleSpecifierSourceFile P sf (importSpecifier d) = Some t
     \<longrightarrow> (barrelTarget P ap sf d = Some t
            \<longleftrightarrow> (\<exists>s \<in> set (otherStatements t). \<exists>e. s = ExportDeclaration e)))
   \<and> (rewriteImportsInFile flag P ap paths dry sf = Inr r \<and> d \<in> set (importDeclarations sf)
        \<and> barrelTarget P ap sf d = None
     \<longrightarrow> d \<in> set (importDeclarations (rewrittenFile r)))"
proof (intro conjI impI)
  assume "isLocalImport ap (importSpecifier d)
      \<and> getModuleSpecifierSourceFile P sf (importSpecifier d) = Some t"
  then show "barrelTarget P ap sf d = Some t
            \<longleftrightarrow> (\<exists>s \<in> set (otherStatements t). \<exists>e. s = ExportDeclaration e)"
    using exportDeclarationsOf_nonempty_iff [of "otherStatements t"]
    by (simp add: barrelTarget_def getExportDeclarations_def)
next
  assume a: "rewriteImportsInFile flag P ap paths dry sf = Inr r \<and> d \<in> set (importDeclarations sf)
        \<and> barrelTarget P ap sf d = None"
  then have "\<not> isRewritten P ap paths sf d" by (simp add: barrelTarget_None_not_rewritten)
  with a show "d \<in> set (importDeclarations (rewrittenFile r))"
    using not_rewritten_stays by blast
qed

lemma lib_run: "rewriteImportsInFile False libProject [] [] False libMain =
  Inr \<lparr>rewrittenFile = importingFile ''/repo/lib-main.ts''
          [importY, \<lparr>importSpecifier = ''./lib/index'', defaultImport = None,
                     namedImports = [namedImport ''x'']\<rparr>],
       hasChanged = True, saved = True,
          prototypeDefaultAfter = False\<rparr>"
  by (simp add: lib_defs example_defs project_defs rewrite_defs string_defs)

theorem barrel_candidate_iff_export_declaration_witness:
  "isLocalImport [] (importSpecifier importY)
   \<and> getModuleSpecifierSourceFile libProject libMain (importSpecifier importY)
       = Some (declaringModule ''/repo/plain.ts'' [''y''])
   \<and> barrelTarget libProject [] libMain importY = None
   \<and> importY \<in> set (importDeclarations libMain)
   \<and> importY \<in> set (importDeclarations (importingFile ''/repo/lib-main.ts''
          [importY, \<lparr>importSpecifier = ''./lib/index'', defaultImport = None,
                     namedImports = [namedImport ''x'']\<rparr>]))
   \<and> isLocalImport [] (importSpecifier importX)
   \<and> getModuleSpecifierSourceFile libProject libMain (importSpecifier importX) = Some libIndex
   \<and> barrelTarget libProject [] libMain importX = Some libIndex"
proof -
  have l: "isLocalImport [] (importSpecifier importY)"
    by (simp add: isLocalImport_def importY_def startsWith_def)
  have g: "getModuleSpecifierSourceFile libProject libMain (importSpecifier importY)
       = Some (declaringModule ''/repo/plain.ts'' [''y''])"
    by (simp add: lib_defs example_defs project_defs string_defs)
  have b: "barrelTarget libProject [] libMain importY = None"
    by (simp add: barrelTarget_def isLocalImport_def lib_defs example_defs project_defs string_defs)
  have m: "importY \<in> set (importDeclarations libMain)"
    by (simp add: libMain_def importingFile_def)
  have lx: "isLocalImport [] (importSpecifier importX)"
    by (simp add: isLocalImport_def importX_def startsWith_def)
  have gx: "getModuleSpecifierSourceFile libProject libMain (importSpecifier importX) = Some libIndex"
    by (simp add: lib_defs example_defs project_defs string_defs)
  have sx: "\<exists>s \<in> set (otherStatements libIndex). \<exists>e. s = ExportDeclaration e"
    by (simp add: libIndex_def)
  note t1 = barrel_candidate_iff_export_declaration
    [of "[]" importY libProject libMain "declaringModule ''/repo/plain.ts'' [''y'']" False "[]" False
      "\<lparr>rewrittenFile = importingFile ''/repo/lib-main.ts''
          [importY, \<lparr>importSpecifier = ''./lib/index'', defaultImport = None,
                     namedImports = [namedImport ''x'']\<rparr>],
       hasChanged = True, saved = True,
          prototypeDefaultAfter = False\<rparr>"]
  note t2 = barrel_candidate_iff_export_declaration
    [of "[]" importX libProject libMain libIndex False "[]" False undefined]
  from t1 lib_run m b have 1: "importY \<in> set (importDeclarations (importingFile ''/repo/lib-main.ts''
          [importY, \<lparr>importSpecifier = ''./lib/index'', defaultImport = None,
                     namedImports = [namedImport ''x'']\<rparr>]))" by simp
  from t2 lx gx sx have 2: "barrelTarget libProject [] libMain importX = Some libIndex" by blast
  from l g b m 1 lx gx 2 show ?thesis by blast
qed

text \<open>
  Claim C5 as stated fails: \<open>lib/index.ts\<close> holds only \<open>export { x }\<close>, an
  export declaration without a module specifier, and is taken for a barrel; the
  import from \<open>./lib\<close> is rewritten to \<open>./lib/index\<close>.
\<close>

theorem local_export_is_barrel_candidate:
  "getExportDeclarations libIndex = [exportLocal [''x'']]
   \<and> exportSpecifier (exportLocal [''x'']) = None
   \<and> barrelTarget libProject [] libMain importX = Some libIndex
   \<and> rewriteImportsInFile False libProject [] [] False libMain =
       Inr \<lparr>rewrittenFile = importingFile ''/repo/lib-main.ts''
          [importY, \<lparr>importSpecifier = ''./lib/index'', defaultImport = None,
                     namedImports = [namedImport ''x'']\<rparr>],
       hasChanged = True, saved = True,
          prototypeDefaultAfter = False\<rparr>"
proof -
  have "getExportDeclarations libIndex = [exportLocal [''x'']]"
    by (simp add: getExportDeclarations_def libIndex_def)
  moreover have "exportSpecifier (exportLocal [''x'']) = None"
    by (simp add: exportLocal_def)
  moreover have "barrelTarget libProject [] libMain importX = Some libIndex"
    by (simp add: barrelTarget_def isLocalImport_def lib_defs example_defs project_defs string_defs)
  ultimately show ?thesis using lib_run by simp
qed


section \<open>Bindings that are not found\<close>




















section \<open>Merging the rewritten bindings\<close>

text \<open>
  Claim C10 on \<open>src/lib/barrelBreaker.js\<close>: the rewritten bindings of a file
  are not all merged into an emitted import. \<open>importGroups\<close> is a plain
  object, and for a resolved specifier that is the name of a property of
  \<open>Object.prototype\<close> no group is created. With the alias \<open>toString\<close> for
  \<open>components/index.ts\<close>, the default import of
  \<open>import Button from './components'\<close> is rewritten to the specifier
  \<open>toString\<close>; the import declaration is removed and no import is emitted
  for it, so the file is saved without the binding. With the alias \<open>valueOf\<close>
  for \<open>components/button.ts\<close>, the named import of
  \<open>import { button } from './components'\<close> is rewritten to the specifier
  \<open>valueOf\<close>, and the rewrite of the file raises a TypeError at
  \<open>importGroups[specifier].named.set\<close>.
\<close>

theorem inherited_specifier_not_merged:
  "''toString'' \<in> set objectPrototypeNames
   \<and> ''valueOf'' \<in> set objectPrototypeNames
   \<and> processImportDeclaration componentsProject (hd (importDeclarations defaultOnly))
         componentsIndex defaultOnly ''./components''
         (reExportMapOf componentsProject componentsIndex) inheritedAliases
       = Inr (defaultOnly,
              \<lparr>resultChanged = True,
                rewrittenImports = [(''toString'', ([], Some ''Button''))]\<rparr>)
   \<and> rewriteImportsInFile False componentsProject [''toString'', ''valueOf''] inheritedAliases
         False defaultOnly
       = Inr \<lparr>rewrittenFile = importingFile ''/repo/default-only.ts'' [],
              hasChanged = True, saved = True, prototypeDefaultAfter = False\<rparr>
   \<and> processImportDeclaration componentsProject (hd (importDeclarations namedOnly))
         componentsIndex namedOnly ''./components''
         (reExportMapOf componentsProject componentsIndex) inheritedAliases
       = Inr (namedOnly,
              \<lparr>resultChanged = True,
                rewrittenImports = [(''valueOf'', ([(''button'', ''button'')], None))]\<rparr>)
   \<and> rewriteImportsInFile False componentsProject [''toString'', ''valueOf''] inheritedAliases
         False namedOnly
       = Inl TypeError"
proof -
  have 1: "''toString'' \<in> set objectPrototypeNames" "''valueOf'' \<in> set objectPrototypeNames"
    by (simp_all add: objectPrototypeNames_def)
  have 3: "processImportDeclaration componentsProject (hd (importDeclarations defaultOnly))
         componentsIndex defaultOnly ''./components''
         (reExportMapOf componentsProject componentsIndex) inheritedAliases
       = Inr (defaultOnly,
              \<lparr>resultChanged = True,
                rewrittenImports = [(''toString'', ([], Some ''Button''))]\<rparr>)"
    by (simp add: components_defs example_defs project_defs rewrite_defs alias_defs string_defs)
  have 4: "rewriteImportsInFile False componentsProject [''toString'', ''valueOf''] inheritedAliases
         False defaultOnly
       = Inr \<lparr>rewrittenFile = importingFile ''/repo/default-only.ts'' [],
              hasChanged = True, saved = True, prototypeDefaultAfter = False\<rparr>"
    by (simp add: components_defs example_defs project_defs rewrite_defs alias_defs string_defs)
  have 5: "processImportDeclaration componentsProject (hd (importDeclarations namedOnly))
         componentsIndex namedOnly ''./components''
         (reExportMapOf componentsProject componentsIndex) inheritedAliases
       = Inr (namedOnly,
              \<lparr>resultChanged = True,
                rewrittenImports = [(''valueOf'', ([(''button'', ''button'')], None))]\<rparr>)"
    by (simp add: components_defs example_defs project_defs rewrite_defs alias_defs string_defs)
  have 6: "rewriteImportsInFile False componentsProject [''toString'', ''valueOf''] inheritedAliases
         False namedOnly
       = Inl TypeError"
    by (simp add: components_defs example_defs project_defs rewrite_defs alias_defs string_defs)
  from 1 3 4 5 6 show ?thesis by blast
qed

text \<open>
  For specifiers that are no names of properties of \<open>Object.prototype\<close> a
  group is created and the entries are merged into it: \<open>merge-example.ts\<close>
  is left with one import for each resolved specifier, the default import
  \<open>d2\<close> written last and \<open>named\<close> under the local name \<open>n2\<close> written
  last.
\<close>

lemma merge_run:
  "rewriteImportsInFile False fixtureProject [] [] True mergeExample =
     Inr \<lparr>rewrittenFile = importingFile ''/repo/merge-example.ts'' mergeExampleEmitted,
          hasChanged = True, saved = False, prototypeDefaultAfter = False\<rparr>"
  by (simp add: mergeExampleEmitted_def fixture_defs example_defs project_defs
      rewrite_defs string_defs)

section \<open>The name written for a rewritten binding\<close>

text \<open>
  Claim C2 on \<open>src/lib/barrelBreaker.js\<close>: a rewritten binding can lose its
  local alias. In \<open>import { named as a, named as b } from './modules'\<close> both
  bindings are rewritten to the module that declares \<open>named\<close>:
  \<open>processImportDeclaration\<close> returns the pairs \<open>[named, a]\<close> and
  \<open>[named, b]\<close> for \<open>./modules/named-export\<close>. \<open>rewriteImportsInFile\<close>
  puts them into a \<open>Map\<close> with the written name as key, so the second pair
  replaces the first, and the file is left with
  \<open>import { named as b } from './modules/named-export'\<close>: no import reads
  \<open>{named as a}\<close>.
\<close>

theorem rewritten_binding_alias_lost:
  "importDeclarations twiceExample =
       [\<lparr>importSpecifier = ''./modules'', defaultImport = None,
         namedImports = [aliasedImport ''named'' ''a'', aliasedImport ''named'' ''b'']\<rparr>]
   \<and> firstOf (map_of (exportedDeclarations modulesIndex) ''named'')
       = Some ''/repo/modules/named-export.ts''
   \<and> reExportMapOf fixtureProject modulesIndex ''named''
       = Some \<lparr>localName = ''named'', resolvedPath = ''/repo/modules/named-export.ts''\<rparr>
   \<and> processImportDeclaration fixtureProject (hd (importDeclarations twiceExample)) modulesIndex
         twiceExample ''./modules'' (reExportMapOf fixtureProject modulesIndex) []
       = Inr (twiceExample,
              \<lparr>resultChanged = True,
                rewrittenImports =
                  [(''./modules/named-export'', ([(''named'', ''a''), (''named'', ''b'')], None))]\<rparr>)
   \<and> rewriteImportsInFile False fixtureProject [] [] False twiceExample =
     Inr \<lparr>rewrittenFile = importingFile ''/repo/twice-example.ts''
            [\<lparr>importSpecifier = ''./modules/named-export'', defaultImport = None,
              namedImports = [aliasedImport ''named'' ''b'']\<rparr>],
          hasChanged = True, saved = True, prototypeDefaultAfter = False\<rparr>
   \<and> aliasedImport ''named'' ''a''
       \<notin> set (concat (map namedImports
           (importDeclarations (rewrittenFile (projr
              (rewriteImportsInFile False fixtureProject [] [] False twiceExample))))))"
proof -
  have 1: "importDeclarations twiceExample =
       [\<lparr>importSpecifier = ''./modules'', defaultImport = None,
         namedImports = [aliasedImport ''named'' ''a'', aliasedImport ''named'' ''b'']\<rparr>]"
    by (simp add: twiceExample_def importingFile_def)
  have 2: "firstOf (map_of (exportedDeclarations modulesIndex) ''named'')
       = Some ''/repo/modules/named-export.ts''"
    by (simp add: modulesIndex_def)
  have 3: "reExportMapOf fixtureProject modulesIndex ''named''
       = Some \<lparr>localName = ''named'', resolvedPath = ''/repo/modules/named-export.ts''\<rparr>"
    by (simp add: fixture_defs example_defs project_defs string_defs)
  have 4: "processImportDeclaration fixtureProject (hd (importDeclarations twiceExample)) modulesIndex
         twiceExample ''./modules'' (reExportMapOf fixtureProject modulesIndex) []
       = Inr (twiceExample,
              \<lparr>resultChanged = True,
                rewrittenImports =
                  [(''./modules/named-export'', ([(''named'', ''a''), (''named'', ''b'')], None))]\<rparr>)"
    by (simp add: fixture_defs example_defs project_defs rewrite_defs string_defs)
  have 5: "rewriteImportsInFile False fixtureProject [] [] False twiceExample =
     Inr \<lparr>rewrittenFile = importingFile ''/repo/twice-example.ts''
            [\<lparr>importSpecifier = ''./modules/named-export'', defaultImport = None,
              namedImports = [aliasedImport ''named'' ''b'']\<rparr>],
          hasChanged = True, saved = True, prototypeDefaultAfter = False\<rparr>"
    by (simp add: fixture_defs example_defs project_defs rewrite_defs string_defs)
  have 6: "aliasedImport ''named'' ''a''
       \<notin> set (concat (map namedImports
           (importDeclarations (rewrittenFile (projr
              (rewriteImportsInFile False fixtureProject [] [] False twiceExample))))))"
    unfolding 5 by (simp add: importingFile_def aliasedImport_def)
  from 1 2 3 4 5 6 show ?thesis by blast
qed

section \<open>Running the rewrite twice\<close>

















section \<open>A missing tsconfig file\<close>

text \<open>
  Claim C9 on \<open>src/lib/barrelBreaker.js\<close>: when the tsconfig file is missing
  the run throws, whatever \<open>new Project\<close> does, and no file is looked at. It
  throws the error of \<open>new Project\<close>, or that of \<open>readFileSync\<close> should
  \<open>new Project\<close> return.
\<close>

theorem runBarrelBreaker_missing_tsconfig_throws:
  "readTsconfig W tsconfigPath = Missing \<Longrightarrow>
   runBarrelBreaker W inputPath isDryRun tsconfigPath
     = Inl (case newProject W tsconfigPath of Inl e \<Rightarrow> e | Inr P \<Rightarrow> ENOENT)"
  by (simp add: runBarrelBreaker_def split: sum.splits)

theorem runBarrelBreaker_missing_tsconfig_throws_witness:
  "readTsconfig noTsconfigWorld ''tsconfig.json'' = Missing
   \<and> runBarrelBreaker noTsconfigWorld ''fixture'' True ''tsconfig.json'' = Inl ENOENT"
proof -
  have m: "readTsconfig noTsconfigWorld ''tsconfig.json'' = Missing"
    by (simp add: noTsconfigWorld_def)
  have n: "newProject noTsconfigWorld ''tsconfig.json'' = Inl ENOENT"
    by (simp add: noTsconfigWorld_def)
  from runBarrelBreaker_missing_tsconfig_throws [OF m, of "''fixture''" True] m n
  show ?thesis by simp
qed

text \<open>
  The later revision does what the claim says: without the file it returns the
  empty alias table, the default project and its two warnings.
\<close>

lemma initializeLater_missing_tsconfig:
  "\<not> tsconfigExists tsconfigPath \<Longrightarrow>
   \<exists>i. initializeLater W tsconfigExists defaultProject tsconfigPath = Inr i
     \<and> pathsConfig i = [] \<and> initAliasPrefixes i = [] \<and> length (warnings i) = 2
     \<and> initProject i = defaultProject"
  by (simp add: initializeLater_def)

end
